theory Spec2Isabelle
  imports Main
begin

section \<open>Data model\<close>

text \<open>
  The repository holds two variants of one program: \<^verbatim>\<open>src/main.go\<close> (suffix \<open>_M\<close>
  below) and \<^verbatim>\<open>src/unnamed/part_000\<close> (suffix \<open>_P\<close>).  Functions whose text is the
  same in both files (\<^verbatim>\<open>isRepoClean\<close>, \<^verbatim>\<open>pullRepo\<close>, \<^verbatim>\<open>rebuildNixOS\<close>,
  \<^verbatim>\<open>sendDiscord\<close>, \<^verbatim>\<open>isGitRepo\<close>) are embedded once.
\<close>

record Config =
  RepoURL :: string
  Branch :: string
  RepoPath :: string
  DiscordWebhook :: string
  LastCommitHash :: string

text \<open>A Go \<^verbatim>\<open>error\<close> is represented by the text of its \<^verbatim>\<open>Error()\<close> method.\<close>

type_synonym error = string

text \<open>Of \<^verbatim>\<open>os.FileInfo\<close> the program reads \<^verbatim>\<open>IsDir()\<close> only.\<close>

record FileInfo =
  IsDir :: bool

text \<open>
  The components of the pipeline that the program calls as functions, and the
  observable actions of a run.  \<open>Stage s\<close> marks the entry into the function that
  implements component \<open>s\<close>; \<open>Notify url message\<close> marks a call of
  \<^verbatim>\<open>sendDiscord\<close>; the other events are the calls that leave the process.
\<close>

datatype stage =
  Validator | Cleanliness | RemoteResolution | LocalResolution | Sync | Rebuild | Persist

datatype event =
    Stage stage
  | Notify string string
  | Exec "string list"
  | HttpPost string string
  | LogPrint string
  | FileCreate string
  | FileWrite string string

text \<open>
  The exit points of \<^verbatim>\<open>main\<close>.  The source has no outcome value: each
  \<^verbatim>\<open>return\<close> and each \<^verbatim>\<open>log.Fatalf\<close> of \<^verbatim>\<open>main\<close> is labelled here with the
  run outcome it stands for, next to the exit status of the process
  (\<^verbatim>\<open>log.Fatalf\<close> ends the process with status 1, returning from \<^verbatim>\<open>main\<close> with 0).
\<close>

datatype outcome =
    ConfigurationError error
  | NotAVCSRepo
  | StatusQueryError error
  | DirtyWorkingTree
  | ComparatorFailure stage error
  | NoChange
  | SyncFailure error
  | RebuildFailure error
  | Success

section \<open>The environment of the process\<close>

text \<open>
  Everything the program asks of its environment is a field of \<open>sys\<close>, over an
  arbitrary type \<open>'w\<close> of states of the world:
  \<^item> \<open>exec_cmd argv\<close>: running an external command to completion
    (\<^verbatim>\<open>exec.Command(...).Output()\<close> and \<^verbatim>\<open>.Run()\<close>), giving its error or its
    standard output;
  \<^item> \<open>http_post url body\<close>: \<^verbatim>\<open>http.Post\<close>, of which the program reads the error only;
  \<^item> \<open>os_stat\<close>, \<open>os_hostname\<close>, \<open>os_open\<close> (open and read a file): reads, which leave
    the world as it is;
  \<^item> \<open>os_create\<close>, \<open>file_write\<close>: \<^verbatim>\<open>os.Create\<close> and the write of the encoder;
  \<^item> \<open>json_decode\<close>, \<open>json_encode\<close>, \<open>json_marshal\<close>: the codecs of
    \<^verbatim>\<open>encoding/json\<close> for a \<open>Config\<close> and for the payload
    \<^verbatim>\<open>{"content": message}\<close>.
\<close>

record 'w sys =
  exec_cmd :: "string list \<Rightarrow> 'w \<Rightarrow> (error + string) \<times> 'w"
  http_post :: "string \<Rightarrow> string \<Rightarrow> 'w \<Rightarrow> error option \<times> 'w"
  os_stat :: "string \<Rightarrow> 'w \<Rightarrow> error + FileInfo"
  os_hostname :: "'w \<Rightarrow> error + string"
  os_open :: "string \<Rightarrow> 'w \<Rightarrow> error + string"
  os_create :: "string \<Rightarrow> 'w \<Rightarrow> error option \<times> 'w"
  file_write :: "string \<Rightarrow> string \<Rightarrow> 'w \<Rightarrow> error option \<times> 'w"
  json_decode :: "string \<Rightarrow> error + Config"
  json_encode :: "Config \<Rightarrow> string"
  json_marshal :: "string \<Rightarrow> string"

text \<open>
  A computation takes the world and gives its result, the events it caused, in order,
  and the world it leaves.
\<close>

type_synonym ('a, 'w) prog = "'w \<Rightarrow> 'a \<times> event list \<times> 'w"

definition ret :: "'a \<Rightarrow> ('a, 'w) prog" where
  "ret a w = (a, [], w)"

definition andThen :: "('a, 'w) prog \<Rightarrow> ('a \<Rightarrow> ('b, 'w) prog) \<Rightarrow> ('b, 'w) prog" where
  "andThen m k w =
     (case m w of (a, es, w') \<Rightarrow>
        (case k a w' of (b, es', w'') \<Rightarrow> (b, es @ es', w'')))"

definition emit :: "event \<Rightarrow> (unit, 'w) prog" where
  "emit e w = ((), [e], w)"

definition lift :: "('w \<Rightarrow> 'a) \<Rightarrow> ('a, 'w) prog" where
  "lift f w = (f w, [], w)"

text \<open>A call that changes the world and is not recorded as an event by itself.\<close>

definition effect :: "('w \<Rightarrow> 'a \<times> 'w) \<Rightarrow> ('a, 'w) prog" where
  "effect f w = (case f w of (r, w') \<Rightarrow> (r, [], w'))"

definition result :: "('a, 'w) prog \<Rightarrow> 'w \<Rightarrow> 'a" where
  "result m w = fst (m w)"

definition events :: "('a, 'w) prog \<Rightarrow> 'w \<Rightarrow> event list" where
  "events m w = fst (snd (m w))"

definition after :: "('a, 'w) prog \<Rightarrow> 'w \<Rightarrow> 'w" where
  "after m w = snd (snd (m w))"

text \<open>\<^verbatim>\<open>cmd.Output()\<close> and \<^verbatim>\<open>cmd.Run()\<close>.\<close>

definition cmd_Output :: "'w sys \<Rightarrow> string list \<Rightarrow> (error + string, 'w) prog" where
  "cmd_Output sys argv w =
     (case exec_cmd sys argv w of (r, w') \<Rightarrow> (r, [Exec argv], w'))"

definition cmd_Run :: "'w sys \<Rightarrow> string list \<Rightarrow> (error option, 'w) prog" where
  "cmd_Run sys argv w =
     (case exec_cmd sys argv w of
        (r, w') \<Rightarrow> ((case r of Inl e \<Rightarrow> Some e | Inr out \<Rightarrow> None), [Exec argv], w'))"

text \<open>Projections of a trace.\<close>

fun stages_of :: "event list \<Rightarrow> stage list" where
  "stages_of [] = []"
| "stages_of (Stage s # es) = s # stages_of es"
| "stages_of (e # es) = stages_of es"

fun notifications :: "event list \<Rightarrow> (string \<times> string) list" where
  "notifications [] = []"
| "notifications (Notify url m # es) = (url, m) # notifications es"
| "notifications (e # es) = notifications es"

fun execs :: "event list \<Rightarrow> string list list" where
  "execs [] = []"
| "execs (Exec argv # es) = argv # execs es"
| "execs (e # es) = execs es"

fun posts :: "event list \<Rightarrow> (string \<times> string) list" where
  "posts [] = []"
| "posts (HttpPost url body # es) = (url, body) # posts es"
| "posts (e # es) = posts es"

fun writes :: "event list \<Rightarrow> (string \<times> string) list" where
  "writes [] = []"
| "writes (FileWrite path data # es) = (path, data) # writes es"
| "writes (e # es) = writes es"

fun logs :: "event list \<Rightarrow> string list" where
  "logs [] = []"
| "logs (LogPrint msg # es) = msg # logs es"
| "logs (e # es) = logs es"

section \<open>Library functions of Go that the program calls\<close>

text \<open>
  Strings are byte strings.  \<open>isSpace\<close> is the ASCII white space of Go's
  \<^verbatim>\<open>strings\<close> package (tab, line feed, vertical tab, form feed, carriage return,
  space); white space outside ASCII is not modelled.
\<close>

definition isSpace :: "char \<Rightarrow> bool" where
  "isSpace c = (c = CHR 0x09 \<or> c = CHR 0x0A \<or> c = CHR 0x0B \<or> c = CHR 0x0C
                \<or> c = CHR 0x0D \<or> c = CHR 0x20)"

definition TrimSpace :: "string \<Rightarrow> string" where
  "TrimSpace s = rev (dropWhile isSpace (rev (dropWhile isSpace s)))"

text \<open>
  \<^verbatim>\<open>strings.Fields\<close>: the maximal runs of characters that are not white space; \<open>cur\<close>
  is the field being read.
\<close>

fun Fields_from :: "string \<Rightarrow> string \<Rightarrow> string list" where
  "Fields_from cur [] = (if cur = [] then [] else [cur])"
| "Fields_from cur (c # cs) =
     (if isSpace c then (if cur = [] then Fields_from [] cs else cur # Fields_from [] cs)
      else Fields_from (cur @ [c]) cs)"

definition Fields :: "string \<Rightarrow> string list" where
  "Fields s = Fields_from [] s"

section \<open>The functions of the program\<close>

subsection \<open>\<^verbatim>\<open>loadConfig\<close> and \<^verbatim>\<open>saveConfig\<close>\<close>

definition loadConfig_M :: "'w sys \<Rightarrow> 'w \<Rightarrow> error + Config" where
  "loadConfig_M sys w =
     (case os_open sys ''/etc/nix-config-manager.json'' w of
        Inl err \<Rightarrow> Inl (''failed to open nix-config-manager.json: '' @ err)
      | Inr file \<Rightarrow>
          (case json_decode sys file of
             Inl err \<Rightarrow> Inl (''failed to decode nix-config-manager.json: '' @ err)
           | Inr cfg \<Rightarrow> Inr cfg))"

definition loadConfig_P :: "'w sys \<Rightarrow> 'w \<Rightarrow> error + Config" where
  "loadConfig_P sys w =
     (case os_open sys ''config.json'' w of
        Inl err \<Rightarrow> Inl (''failed to open config.json: '' @ err)
      | Inr file \<Rightarrow>
          (case json_decode sys file of
             Inl err \<Rightarrow> Inl (''failed to decode config.json: '' @ err)
           | Inr cfg \<Rightarrow> Inr cfg))"

text \<open>\<^verbatim>\<open>saveConfig\<close> exists in \<^verbatim>\<open>src/unnamed/part_000\<close> only.\<close>

definition saveConfig :: "'w sys \<Rightarrow> Config \<Rightarrow> (error option, 'w) prog" where
  "saveConfig sys cfg =
     andThen (emit (Stage Persist)) (\<lambda>_.
     andThen (emit (FileCreate ''config.json'')) (\<lambda>_.
     andThen (effect (os_create sys ''config.json'')) (\<lambda>r.
       case r of
         Some err \<Rightarrow> ret (Some (''failed to create config.json: '' @ err))
       | None \<Rightarrow>
           andThen (emit (FileWrite ''config.json'' (json_encode sys cfg))) (\<lambda>_.
           andThen (effect (file_write sys ''config.json'' (json_encode sys cfg))) (\<lambda>r.
             case r of
               Some err \<Rightarrow> ret (Some (''failed to encode config.json: '' @ err))
             | None \<Rightarrow> ret None)))))"

subsection \<open>Revision resolution\<close>

text \<open>\<^verbatim>\<open>src/main.go\<close>: the remote tip is read with \<^verbatim>\<open>git ls-remote\<close>.\<close>

definition getRemoteHash_M :: "'w sys \<Rightarrow> string \<Rightarrow> string \<Rightarrow> (error + string, 'w) prog" where
  "getRemoteHash_M sys repoPath branch =
     andThen (emit (Stage RemoteResolution)) (\<lambda>_.
     andThen (cmd_Output sys [''git'', ''-C'', repoPath, ''ls-remote'', ''origin'', branch]) (\<lambda>r.
       case r of
         Inl err \<Rightarrow> ret (Inl (''failed to get remote hash: '' @ err))
       | Inr out \<Rightarrow>
           (case Fields out of
              p # ps \<Rightarrow> ret (Inr p)
            | [] \<Rightarrow> ret (Inl (''no hash found for branch '' @ branch)))))"

text \<open>\<^verbatim>\<open>src/main.go\<close>: the local tip is the tip of the local branch, after a fetch.\<close>

definition getLocalHash_M :: "'w sys \<Rightarrow> string \<Rightarrow> string \<Rightarrow> (error + string, 'w) prog" where
  "getLocalHash_M sys repoPath branch =
     andThen (emit (Stage LocalResolution)) (\<lambda>_.
     andThen (cmd_Run sys [''git'', ''-C'', repoPath, ''fetch'', ''origin'', branch]) (\<lambda>r.
       case r of
         Some err \<Rightarrow>
           ret (Inl (''failed to fetch updates for branch '' @ branch @ '': '' @ err))
       | None \<Rightarrow>
           andThen (cmd_Output sys [''git'', ''-C'', repoPath, ''rev-parse'', branch]) (\<lambda>r.
             case r of
               Inl err \<Rightarrow> ret (Inl (''failed to get local hash: '' @ err))
             | Inr out \<Rightarrow> ret (Inr (TrimSpace out)))))"

text \<open>
  \<^verbatim>\<open>src/unnamed/part_000\<close>: the remote tip is the remote-tracking ref after a fetch.
\<close>

definition getRemoteHash_P :: "'w sys \<Rightarrow> string \<Rightarrow> string \<Rightarrow> (error + string, 'w) prog" where
  "getRemoteHash_P sys repoPath branch =
     andThen (emit (Stage RemoteResolution)) (\<lambda>_.
     andThen (cmd_Run sys [''git'', ''-C'', repoPath, ''fetch'', ''origin'', branch]) (\<lambda>r.
       case r of
         Some err \<Rightarrow> ret (Inl (''git fetch failed: '' @ err))
       | None \<Rightarrow>
           andThen (cmd_Output sys
                      [''git'', ''-C'', repoPath, ''rev-parse'', ''origin/'' @ branch]) (\<lambda>r.
             case r of
               Inl err \<Rightarrow> ret (Inl err)
             | Inr out \<Rightarrow> ret (Inr (TrimSpace out)))))"

text \<open>\<^verbatim>\<open>src/unnamed/part_000\<close>: the local tip is \<^verbatim>\<open>HEAD\<close>.\<close>

definition getLocalHash_P :: "'w sys \<Rightarrow> string \<Rightarrow> (error + string, 'w) prog" where
  "getLocalHash_P sys repoPath =
     andThen (emit (Stage LocalResolution)) (\<lambda>_.
     andThen (cmd_Output sys [''git'', ''-C'', repoPath, ''rev-parse'', ''HEAD'']) (\<lambda>r.
       case r of
         Inl err \<Rightarrow> ret (Inl err)
       | Inr out \<Rightarrow> ret (Inr (TrimSpace out))))"

subsection \<open>Functions shared by both files\<close>

definition isRepoClean :: "'w sys \<Rightarrow> string \<Rightarrow> (error + bool, 'w) prog" where
  "isRepoClean sys repoPath =
     andThen (emit (Stage Cleanliness)) (\<lambda>_.
     andThen (cmd_Output sys [''git'', ''-C'', repoPath, ''status'', ''--porcelain'']) (\<lambda>r.
       case r of
         Inl err \<Rightarrow> ret (Inl err)
       | Inr out \<Rightarrow> ret (Inr (TrimSpace out = ''''))))"

text \<open>The loop of \<^verbatim>\<open>pullRepo\<close> over its commands: the first failure ends it.\<close>

fun run_cmds :: "'w sys \<Rightarrow> string list list \<Rightarrow> (error option, 'w) prog" where
  "run_cmds sys [] = ret None"
| "run_cmds sys (args # cmds) =
     andThen (cmd_Run sys args) (\<lambda>r.
       case r of
         Some err \<Rightarrow> ret (Some (''git command failed: '' @ err))
       | None \<Rightarrow> run_cmds sys cmds)"

definition pullRepo :: "'w sys \<Rightarrow> string \<Rightarrow> string \<Rightarrow> (error option, 'w) prog" where
  "pullRepo sys repoPath branch =
     andThen (emit (Stage Sync)) (\<lambda>_.
       run_cmds sys
         [[''git'', ''-C'', repoPath, ''fetch'', ''origin'', branch],
          [''git'', ''-C'', repoPath, ''reset'', ''--hard'', ''origin/'' @ branch]])"

definition rebuildNixOS :: "'w sys \<Rightarrow> (error option, 'w) prog" where
  "rebuildNixOS sys =
     andThen (emit (Stage Rebuild)) (\<lambda>_. cmd_Run sys [''nixos-rebuild'', ''switch''])"

definition sendDiscord :: "'w sys \<Rightarrow> string \<Rightarrow> string \<Rightarrow> (unit, 'w) prog" where
  "sendDiscord sys webhookURL message =
     andThen (emit (Notify webhookURL message)) (\<lambda>_.
     andThen (emit (HttpPost webhookURL (json_marshal sys message))) (\<lambda>_.
     andThen (effect (http_post sys webhookURL (json_marshal sys message))) (\<lambda>r.
       case r of
         Some err \<Rightarrow> emit (LogPrint (''failed to send Discord webhook: '' @ err))
       | None \<Rightarrow> ret ())))"

definition isGitRepo :: "'w sys \<Rightarrow> string \<Rightarrow> (bool, 'w) prog" where
  "isGitRepo sys path =
     andThen (emit (Stage Validator)) (\<lambda>_.
       lift (\<lambda>w. case os_stat sys (path @ ''/.git'') w of
                   Inl err \<Rightarrow> False
                 | Inr info \<Rightarrow> IsDir info))"

subsection \<open>\<^verbatim>\<open>main\<close>\<close>

text \<open>\<^verbatim>\<open>log.Fatalf\<close>: print, then end the process with status 1.\<close>

definition log_Fatalf :: "string \<Rightarrow> outcome \<Rightarrow> (outcome \<times> nat, 'w) prog" where
  "log_Fatalf msg oc = andThen (emit (LogPrint msg)) (\<lambda>_. ret (oc, 1))"

text \<open>
  \<^verbatim>\<open>os.Hostname()\<close> with the fallback of \<^verbatim>\<open>main\<close>: on an error the name is
  \<^verbatim>\<open>unknown-host\<close> and the error is printed.
\<close>

definition get_hostname :: "'w sys \<Rightarrow> (string, 'w) prog" where
  "get_hostname sys =
     andThen (lift (os_hostname sys)) (\<lambda>r.
       case r of
         Inl err \<Rightarrow>
           andThen (emit (LogPrint (''failed to get hostname: '' @ err))) (\<lambda>_.
             ret ''unknown-host'')
       | Inr hostname \<Rightarrow> ret hostname)"

text \<open>\<^verbatim>\<open>main\<close> of \<^verbatim>\<open>src/main.go\<close>.\<close>

definition main_M :: "'w sys \<Rightarrow> (outcome \<times> nat, 'w) prog" where
  "main_M sys =
     andThen (lift (loadConfig_M sys)) (\<lambda>r.
       case r of
         Inl err \<Rightarrow> log_Fatalf (''Error loading config: '' @ err) (ConfigurationError err)
       | Inr cfg \<Rightarrow>
     andThen (get_hostname sys) (\<lambda>hostname.
     andThen (isGitRepo sys (RepoPath cfg)) (\<lambda>ok.
       if \<not> ok then
         andThen (sendDiscord sys (DiscordWebhook cfg)
                    (''Repo path `'' @ RepoPath cfg @ ''` on `'' @ hostname
                     @ ''` is not a Git repo'')) (\<lambda>_.
           log_Fatalf (''Not a Git repo: '' @ RepoPath cfg) NotAVCSRepo)
       else
     andThen (isRepoClean sys (RepoPath cfg)) (\<lambda>r.
       case r of
         Inl err \<Rightarrow>
           andThen (sendDiscord sys (DiscordWebhook cfg)
                      (''Failed to check Git status on `'' @ hostname @ ''`: '' @ err)) (\<lambda>_.
             ret (StatusQueryError err, 0))
       | Inr isClean \<Rightarrow>
       if \<not> isClean then
         andThen (sendDiscord sys (DiscordWebhook cfg)
                    (''Repo at `'' @ RepoPath cfg @ ''` on `'' @ hostname
                     @ ''` has uncommitted changes. Skipping rebuild.'')) (\<lambda>_.
           ret (DirtyWorkingTree, 0))
       else
     andThen (getRemoteHash_M sys (RepoPath cfg) (Branch cfg)) (\<lambda>r.
       case r of
         Inl err \<Rightarrow>
           andThen (sendDiscord sys (DiscordWebhook cfg)
                      (''Failed to get remote hash on `'' @ hostname @ ''`: '' @ err)) (\<lambda>_.
             ret (ComparatorFailure RemoteResolution err, 0))
       | Inr remoteHash \<Rightarrow>
     andThen (getLocalHash_M sys (RepoPath cfg) (Branch cfg)) (\<lambda>r.
       case r of
         Inl err \<Rightarrow>
           andThen (sendDiscord sys (DiscordWebhook cfg)
                      (''Failed to get local hash on `'' @ hostname @ ''`: '' @ err)) (\<lambda>_.
             ret (ComparatorFailure LocalResolution err, 0))
       | Inr localHash \<Rightarrow>
     andThen (emit (LogPrint (''Remote Hash: '' @ remoteHash))) (\<lambda>_.
     andThen (emit (LogPrint (''Local Hash: '' @ localHash))) (\<lambda>_.
       if remoteHash = localHash then
         andThen (emit (LogPrint ''No changes detected.'')) (\<lambda>_. ret (NoChange, 0))
       else
     andThen (emit (LogPrint ''Change detected! Pulling and rebuilding...'')) (\<lambda>_.
     andThen (pullRepo sys (RepoPath cfg) (Branch cfg)) (\<lambda>r.
       case r of
         Some err \<Rightarrow>
           andThen (sendDiscord sys (DiscordWebhook cfg)
                      (''Failed to pull repo on `'' @ hostname @ ''`: '' @ err)) (\<lambda>_.
             ret (SyncFailure err, 0))
       | None \<Rightarrow>
     andThen (rebuildNixOS sys) (\<lambda>r.
       case r of
         Some err \<Rightarrow>
           andThen (sendDiscord sys (DiscordWebhook cfg)
                      (''NixOS rebuild failed on `'' @ hostname @ ''`: '' @ err)) (\<lambda>_.
             ret (RebuildFailure err, 0))
       | None \<Rightarrow>
     andThen (emit (LogPrint ''NixOS rebuild successful.'')) (\<lambda>_.
     andThen (sendDiscord sys (DiscordWebhook cfg)
                (''NixOS rebuild successful on `'' @ hostname @ ''`.'')) (\<lambda>_.
       ret (Success, 0))))))))))))))"

text \<open>
  \<^verbatim>\<open>main\<close> of \<^verbatim>\<open>src/unnamed/part_000\<close>: as above, with the other revision
  resolution and with the configuration saved after the rebuild.
\<close>

definition main_P :: "'w sys \<Rightarrow> (outcome \<times> nat, 'w) prog" where
  "main_P sys =
     andThen (lift (loadConfig_P sys)) (\<lambda>r.
       case r of
         Inl err \<Rightarrow> log_Fatalf (''Error loading config: '' @ err) (ConfigurationError err)
       | Inr cfg \<Rightarrow>
     andThen (get_hostname sys) (\<lambda>hostname.
     andThen (isGitRepo sys (RepoPath cfg)) (\<lambda>ok.
       if \<not> ok then
         andThen (sendDiscord sys (DiscordWebhook cfg)
                    (''Repo path `'' @ RepoPath cfg @ ''` on `'' @ hostname
                     @ ''` is not a Git repo'')) (\<lambda>_.
           log_Fatalf (''Not a Git repo: '' @ RepoPath cfg) NotAVCSRepo)
       else
     andThen (isRepoClean sys (RepoPath cfg)) (\<lambda>r.
       case r of
         Inl err \<Rightarrow>
           andThen (sendDiscord sys (DiscordWebhook cfg)
                      (''Failed to check Git status on `'' @ hostname @ ''`: '' @ err)) (\<lambda>_.
             ret (StatusQueryError err, 0))
       | Inr isClean \<Rightarrow>
       if \<not> isClean then
         andThen (sendDiscord sys (DiscordWebhook cfg)
                    (''Repo at `'' @ RepoPath cfg @ ''` on `'' @ hostname
                     @ ''` has uncommitted changes. Skipping rebuild.'')) (\<lambda>_.
           ret (DirtyWorkingTree, 0))
       else
     andThen (getRemoteHash_P sys (RepoPath cfg) (Branch cfg)) (\<lambda>r.
       case r of
         Inl err \<Rightarrow>
           andThen (sendDiscord sys (DiscordWebhook cfg)
                      (''Failed to get remote hash on `'' @ hostname @ ''`: '' @ err)) (\<lambda>_.
             ret (ComparatorFailure RemoteResolution err, 0))
       | Inr remoteHash \<Rightarrow>
     andThen (getLocalHash_P sys (RepoPath cfg)) (\<lambda>r.
       case r of
         Inl err \<Rightarrow>
           andThen (sendDiscord sys (DiscordWebhook cfg)
                      (''Failed to get local hash on `'' @ hostname @ ''`: '' @ err)) (\<lambda>_.
             ret (ComparatorFailure LocalResolution err, 0))
       | Inr localHash \<Rightarrow>
     andThen (emit (LogPrint (''Remote Hash: '' @ remoteHash))) (\<lambda>_.
     andThen (emit (LogPrint (''Local Hash: '' @ localHash))) (\<lambda>_.
       if remoteHash = localHash then
         andThen (emit (LogPrint ''No changes detected.'')) (\<lambda>_. ret (NoChange, 0))
       else
     andThen (emit (LogPrint ''Change detected! Pulling and rebuilding...'')) (\<lambda>_.
     andThen (pullRepo sys (RepoPath cfg) (Branch cfg)) (\<lambda>r.
       case r of
         Some err \<Rightarrow>
           andThen (sendDiscord sys (DiscordWebhook cfg)
                      (''Failed to pull repo on `'' @ hostname @ ''`: '' @ err)) (\<lambda>_.
             ret (SyncFailure err, 0))
       | None \<Rightarrow>
     andThen (rebuildNixOS sys) (\<lambda>r.
       case r of
         Some err \<Rightarrow>
           andThen (sendDiscord sys (DiscordWebhook cfg)
                      (''NixOS rebuild failed on `'' @ hostname @ ''`: '' @ err)) (\<lambda>_.
             ret (RebuildFailure err, 0))
       | None \<Rightarrow>
     andThen (saveConfig sys (cfg\<lparr>LastCommitHash := remoteHash\<rparr>)) (\<lambda>r.
     andThen (case r of
                Some err \<Rightarrow> emit (LogPrint (''Failed to save config: '' @ err))
              | None \<Rightarrow> ret ()) (\<lambda>_.
     andThen (emit (LogPrint ''NixOS rebuild successful.'')) (\<lambda>_.
     andThen (sendDiscord sys (DiscordWebhook cfg)
                (''NixOS rebuild successful on `'' @ hostname @ ''`.'')) (\<lambda>_.
       ret (Success, 0))))))))))))))))"

subsection \<open>The Revision Comparator as \<^verbatim>\<open>main\<close> runs it\<close>

text \<open>
  The two resolution calls in the order and with the early return of \<^verbatim>\<open>main\<close>
  (\<^verbatim>\<open>src/main.go\<close> lines 141 to 151, \<^verbatim>\<open>src/unnamed/part_000\<close> lines 150 to 160):
  the failing stage with its error, or the pair of the remote and the local
  identifier that the Change Gate compares.
\<close>

definition revisions_M ::
  "'w sys \<Rightarrow> string \<Rightarrow> string \<Rightarrow> (stage \<times> error + string \<times> string, 'w) prog" where
  "revisions_M sys repoPath branch =
     andThen (getRemoteHash_M sys repoPath branch) (\<lambda>r.
       case r of
         Inl err \<Rightarrow> ret (Inl (RemoteResolution, err))
       | Inr remoteHash \<Rightarrow>
           andThen (getLocalHash_M sys repoPath branch) (\<lambda>r.
             case r of
               Inl err \<Rightarrow> ret (Inl (LocalResolution, err))
             | Inr localHash \<Rightarrow> ret (Inr (remoteHash, localHash))))"

definition revisions_P ::
  "'w sys \<Rightarrow> string \<Rightarrow> string \<Rightarrow> (stage \<times> error + string \<times> string, 'w) prog" where
  "revisions_P sys repoPath branch =
     andThen (getRemoteHash_P sys repoPath branch) (\<lambda>r.
       case r of
         Inl err \<Rightarrow> ret (Inl (RemoteResolution, err))
       | Inr remoteHash \<Rightarrow>
           andThen (getLocalHash_P sys repoPath) (\<lambda>r.
             case r of
               Inl err \<Rightarrow> ret (Inl (LocalResolution, err))
             | Inr localHash \<Rightarrow> ret (Inr (remoteHash, localHash))))"

section \<open>Runs of either variant\<close>

text \<open>The two files, and their functions by file.\<close>

datatype variant = MainGo | Part000

definition loadConfig :: "variant \<Rightarrow> 'w sys \<Rightarrow> 'w \<Rightarrow> error + Config" where
  "loadConfig v = (case v of MainGo \<Rightarrow> loadConfig_M | Part000 \<Rightarrow> loadConfig_P)"

definition getRemoteHash ::
  "variant \<Rightarrow> 'w sys \<Rightarrow> string \<Rightarrow> string \<Rightarrow> (error + string, 'w) prog" where
  "getRemoteHash v = (case v of MainGo \<Rightarrow> getRemoteHash_M | Part000 \<Rightarrow> getRemoteHash_P)"

definition getLocalHash ::
  "variant \<Rightarrow> 'w sys \<Rightarrow> string \<Rightarrow> string \<Rightarrow> (error + string, 'w) prog" where
  "getLocalHash v sys repoPath branch =
     (case v of
        MainGo \<Rightarrow> getLocalHash_M sys repoPath branch
      | Part000 \<Rightarrow> getLocalHash_P sys repoPath)"

definition main :: "variant \<Rightarrow> 'w sys \<Rightarrow> (outcome \<times> nat, 'w) prog" where
  "main v = (case v of MainGo \<Rightarrow> main_M | Part000 \<Rightarrow> main_P)"

definition run_outcome :: "variant \<Rightarrow> 'w sys \<Rightarrow> 'w \<Rightarrow> outcome" where
  "run_outcome v sys w = fst (result (main v sys) w)"

definition exit_status :: "variant \<Rightarrow> 'w sys \<Rightarrow> 'w \<Rightarrow> nat" where
  "exit_status v sys w = snd (result (main v sys) w)"

definition trace :: "variant \<Rightarrow> 'w sys \<Rightarrow> 'w \<Rightarrow> event list" where
  "trace v sys w = events (main v sys) w"

text \<open>
  What each stage returns in the world that the stages before it leave, when the
  run gets that far: \<^verbatim>\<open>main\<close> calls the stages in this order, each in the world
  its predecessor left (the validator and the host name are reads).
\<close>

definition host_name :: "'w sys \<Rightarrow> 'w \<Rightarrow> string" where
  "host_name sys w = result (get_hostname sys) w"

definition valid_result :: "'w sys \<Rightarrow> Config \<Rightarrow> 'w \<Rightarrow> bool" where
  "valid_result sys cfg w = result (isGitRepo sys (RepoPath cfg)) w"

definition clean_result :: "'w sys \<Rightarrow> Config \<Rightarrow> 'w \<Rightarrow> error + bool" where
  "clean_result sys cfg w = result (isRepoClean sys (RepoPath cfg)) w"

definition clean_world :: "'w sys \<Rightarrow> Config \<Rightarrow> 'w \<Rightarrow> 'w" where
  "clean_world sys cfg w = after (isRepoClean sys (RepoPath cfg)) w"

definition remote_result :: "variant \<Rightarrow> 'w sys \<Rightarrow> Config \<Rightarrow> 'w \<Rightarrow> error + string" where
  "remote_result v sys cfg w =
     result (getRemoteHash v sys (RepoPath cfg) (Branch cfg)) (clean_world sys cfg w)"

definition remote_world :: "variant \<Rightarrow> 'w sys \<Rightarrow> Config \<Rightarrow> 'w \<Rightarrow> 'w" where
  "remote_world v sys cfg w =
     after (getRemoteHash v sys (RepoPath cfg) (Branch cfg)) (clean_world sys cfg w)"

definition local_result :: "variant \<Rightarrow> 'w sys \<Rightarrow> Config \<Rightarrow> 'w \<Rightarrow> error + string" where
  "local_result v sys cfg w =
     result (getLocalHash v sys (RepoPath cfg) (Branch cfg)) (remote_world v sys cfg w)"

definition local_world :: "variant \<Rightarrow> 'w sys \<Rightarrow> Config \<Rightarrow> 'w \<Rightarrow> 'w" where
  "local_world v sys cfg w =
     after (getLocalHash v sys (RepoPath cfg) (Branch cfg)) (remote_world v sys cfg w)"

definition sync_result :: "variant \<Rightarrow> 'w sys \<Rightarrow> Config \<Rightarrow> 'w \<Rightarrow> error option" where
  "sync_result v sys cfg w =
     result (pullRepo sys (RepoPath cfg) (Branch cfg)) (local_world v sys cfg w)"

definition sync_world :: "variant \<Rightarrow> 'w sys \<Rightarrow> Config \<Rightarrow> 'w \<Rightarrow> 'w" where
  "sync_world v sys cfg w =
     after (pullRepo sys (RepoPath cfg) (Branch cfg)) (local_world v sys cfg w)"

definition rebuild_result :: "variant \<Rightarrow> 'w sys \<Rightarrow> Config \<Rightarrow> 'w \<Rightarrow> error option" where
  "rebuild_result v sys cfg w = result (rebuildNixOS sys) (sync_world v sys cfg w)"

definition rebuild_world :: "variant \<Rightarrow> 'w sys \<Rightarrow> Config \<Rightarrow> 'w \<Rightarrow> 'w" where
  "rebuild_world v sys cfg w = after (rebuildNixOS sys) (sync_world v sys cfg w)"

text \<open>
  What \<^verbatim>\<open>saveConfig\<close> returns after the rebuild, in \<^verbatim>\<open>src/unnamed/part_000\<close>, when
  the remote tip was \<open>remoteHash\<close>.
\<close>

definition save_result :: "'w sys \<Rightarrow> Config \<Rightarrow> 'w \<Rightarrow> string \<Rightarrow> error option" where
  "save_result sys cfg w remoteHash =
     result (saveConfig sys (cfg\<lparr>LastCommitHash := remoteHash\<rparr>))
       (rebuild_world Part000 sys cfg w)"

text \<open>
  The run gets past the Change Gate with the tips \<open>remoteHash\<close> and \<open>localHash\<close>:
  the path is a repository, the tree is clean, both tips resolve, and they differ.
\<close>

definition change_detected ::
  "variant \<Rightarrow> 'w sys \<Rightarrow> Config \<Rightarrow> 'w \<Rightarrow> string \<Rightarrow> string \<Rightarrow> bool" where
  "change_detected v sys cfg w remoteHash localHash =
     (valid_result sys cfg w \<and> clean_result sys cfg w = Inr True
      \<and> remote_result v sys cfg w = Inr remoteHash
      \<and> local_result v sys cfg w = Inr localHash
      \<and> remoteHash \<noteq> localHash)"

text \<open>
  \<open>stage_failure v sys cfg w s\<close> is the error with which stage \<open>s\<close> fails in the
  run from \<open>w\<close>, if the run reaches \<open>s\<close> and \<open>s\<close> fails there.  The validator
  fails by returning false and has no error text.
\<close>

definition stage_failure ::
  "variant \<Rightarrow> 'w sys \<Rightarrow> Config \<Rightarrow> 'w \<Rightarrow> stage \<Rightarrow> error option" where
  "stage_failure v sys cfg w s =
     (case s of
        Validator \<Rightarrow> if valid_result sys cfg w then None else Some []
      | Cleanliness \<Rightarrow>
          if valid_result sys cfg w
          then (case clean_result sys cfg w of Inl err \<Rightarrow> Some err | Inr c \<Rightarrow> None)
          else None
      | RemoteResolution \<Rightarrow>
          if valid_result sys cfg w \<and> clean_result sys cfg w = Inr True
          then (case remote_result v sys cfg w of Inl err \<Rightarrow> Some err | Inr h \<Rightarrow> None)
          else None
      | LocalResolution \<Rightarrow>
          if valid_result sys cfg w \<and> clean_result sys cfg w = Inr True
          then (case remote_result v sys cfg w of
                  Inl err \<Rightarrow> None
                | Inr h \<Rightarrow>
                    (case local_result v sys cfg w of Inl err \<Rightarrow> Some err | Inr l \<Rightarrow> None))
          else None
      | Sync \<Rightarrow>
          (case (remote_result v sys cfg w, local_result v sys cfg w) of
             (Inr h, Inr l) \<Rightarrow>
               if change_detected v sys cfg w h l then sync_result v sys cfg w else None
           | _ \<Rightarrow> None)
      | Rebuild \<Rightarrow>
          (case (remote_result v sys cfg w, local_result v sys cfg w) of
             (Inr h, Inr l) \<Rightarrow>
               if change_detected v sys cfg w h l \<and> sync_result v sys cfg w = None
               then rebuild_result v sys cfg w else None
           | _ \<Rightarrow> None)
      | Persist \<Rightarrow> None)"

text \<open>
  The message that \<^verbatim>\<open>main\<close> formats after the failure of a stage: the text of the
  notification, and for the persistence step the line printed to the log.
\<close>

definition failure_message :: "stage \<Rightarrow> Config \<Rightarrow> string \<Rightarrow> error \<Rightarrow> string" where
  "failure_message s cfg hostname err =
     (case s of
        Validator \<Rightarrow>
          ''Repo path `'' @ RepoPath cfg @ ''` on `'' @ hostname @ ''` is not a Git repo''
      | Cleanliness \<Rightarrow> ''Failed to check Git status on `'' @ hostname @ ''`: '' @ err
      | RemoteResolution \<Rightarrow> ''Failed to get remote hash on `'' @ hostname @ ''`: '' @ err
      | LocalResolution \<Rightarrow> ''Failed to get local hash on `'' @ hostname @ ''`: '' @ err
      | Sync \<Rightarrow> ''Failed to pull repo on `'' @ hostname @ ''`: '' @ err
      | Rebuild \<Rightarrow> ''NixOS rebuild failed on `'' @ hostname @ ''`: '' @ err
      | Persist \<Rightarrow> ''Failed to save config: '' @ err)"

text \<open>The stages in the order of \<^verbatim>\<open>main\<close>, and the stages up to a given one.\<close>

definition pipeline :: "stage list" where
  "pipeline =
     [Validator, Cleanliness, RemoteResolution, LocalResolution, Sync, Rebuild, Persist]"

definition upto_stage :: "stage \<Rightarrow> stage list" where
  "upto_stage s = takeWhile (\<lambda>x. x \<noteq> s) pipeline @ [s]"

section \<open>A host with one git checkout\<close>

text \<open>
  A concrete environment: one machine with a file system, one git working tree at
  \<open>h_repo\<close>, and the external tools the program runs.  The remote \<^verbatim>\<open>origin\<close>
  has the branches \<open>h_origin\<close>, each a name with its tip, in the order in which
  the remote advertises its refs (sorted by ref name); the ref of branch \<open>n\<close> is
  \<^verbatim>\<open>refs/heads/n\<close>, and tags and other refs are not modelled.  The model fixes
  what the git commands of the program are taken to do:
  \<^item> \<^verbatim>\<open>ls-remote origin p\<close> takes \<open>p\<close> as a pattern that is matched against
    the tail of each ref: it prints, in the advertised order, one line (tip, tab,
    ref name) for every ref that is \<open>p\<close> or ends in a slash followed by \<open>p\<close>,
    so that \<^verbatim>\<open>main\<close> matches \<^verbatim>\<open>refs/heads/main\<close> and also
    \<^verbatim>\<open>refs/heads/ci/main\<close>; it prints nothing when no ref matches (a branch name
    has no glob characters);
  \<^item> \<^verbatim>\<open>fetch origin b\<close> looks up the branch named \<open>b\<close>: it fails when the
    remote has no such branch, and otherwise sets the remote-tracking ref of \<open>b\<close>
    to the remote's tip;
  \<^item> \<^verbatim>\<open>rev-parse\<close> resolves \<^verbatim>\<open>HEAD\<close> to the checked-out commit, a name
    \<^verbatim>\<open>origin/b\<close> to the remote-tracking ref of \<open>b\<close>, and any other name to the
    local branch of that name (tags, and local branches whose names begin with
    \<^verbatim>\<open>origin/\<close>, are not modelled);
  \<^item> \<^verbatim>\<open>reset --hard origin/b\<close> moves the checked-out branch (or a detached
    \<^verbatim>\<open>HEAD\<close>) to the remote-tracking ref and leaves only untracked entries in the
    status;
  \<^item> \<^verbatim>\<open>status --porcelain\<close> prints one line for each entry of \<open>h_status\<close>.
  Commands that reach the remote fail when \<open>h_online\<close> is false.  The remote does
  not change by itself.
\<close>

datatype fnode = RegularFile string | Directory

datatype head_ref = Attached string | Detached string

record host =
  h_files :: "string \<rightharpoonup> fnode"
  h_hostname :: "string option"
  h_repo :: string
  h_online :: bool
  h_origin :: "(string \<times> string) list"
  h_tracking :: "string \<rightharpoonup> string"
  h_heads :: "string \<rightharpoonup> string"
  h_HEAD :: head_ref
  h_status :: "string list"
  h_rebuild_fails :: bool
  h_readonly :: bool
  h_webhook_up :: bool
  h_delivered :: "(string \<times> string) list"
  h_generation :: nat

definition rev_parse :: "host \<Rightarrow> string \<Rightarrow> string option" where
  "rev_parse h name =
     (if name = ''HEAD'' then
        (case h_HEAD h of Attached b \<Rightarrow> h_heads h b | Detached v \<Rightarrow> Some v)
      else if take 7 name = ''origin/'' then h_tracking h (drop 7 name)
      else h_heads h name)"

definition ends_with :: "string \<Rightarrow> string \<Rightarrow> bool" where
  "ends_with s t = (length t \<le> length s \<and> drop (length s - length t) s = t)"

definition tail_match :: "string \<Rightarrow> string \<Rightarrow> bool" where
  "tail_match pattern ref = (ref = pattern \<or> ends_with ref (''/'' @ pattern))"

definition branch_ref :: "string \<Rightarrow> string" where
  "branch_ref name = ''refs/heads/'' @ name"

definition ref_line :: "string \<times> string \<Rightarrow> string" where
  "ref_line r = snd r @ [CHR 0x09] @ branch_ref (fst r) @ [CHR 0x0A]"

definition ls_remote :: "host \<Rightarrow> string \<Rightarrow> string" where
  "ls_remote h pattern =
     concat (map ref_line
       (filter (\<lambda>r. tail_match pattern (branch_ref (fst r))) (h_origin h)))"

definition git_exec :: "string list \<Rightarrow> host \<Rightarrow> (error + string) \<times> host" where
  "git_exec args h =
     (case args of
        [x, y] \<Rightarrow>
          if x = ''status'' \<and> y = ''--porcelain'' then
            (Inr (concat (map (\<lambda>l. l @ [CHR 0x0A]) (h_status h))), h)
          else if x = ''rev-parse'' then
            (case rev_parse h y of
               None \<Rightarrow> (Inl ''exit status 128'', h)
             | Some v \<Rightarrow> (Inr (v @ [CHR 0x0A]), h))
          else (Inl ''exit status 1'', h)
      | [x, y, z] \<Rightarrow>
          if x = ''ls-remote'' \<and> y = ''origin'' then
            (if \<not> h_online h then (Inl ''exit status 128'', h)
             else (Inr (ls_remote h z), h))
          else if x = ''fetch'' \<and> y = ''origin'' then
            (if \<not> h_online h then (Inl ''exit status 128'', h)
             else
               (case map_of (h_origin h) z of
                  None \<Rightarrow> (Inl ''exit status 128'', h)
                | Some v \<Rightarrow> (Inr [], h\<lparr>h_tracking := (h_tracking h)(z \<mapsto> v)\<rparr>)))
          else if x = ''reset'' \<and> y = ''--hard'' then
            (case rev_parse h z of
               None \<Rightarrow> (Inl ''exit status 128'', h)
             | Some v \<Rightarrow>
                 (Inr (''HEAD is now at '' @ v @ [CHR 0x0A]),
                  (case h_HEAD h of
                     Attached b \<Rightarrow> h\<lparr>h_heads := (h_heads h)(b \<mapsto> v)\<rparr>
                   | Detached u \<Rightarrow> h\<lparr>h_HEAD := Detached v\<rparr>)
                  \<lparr>h_status := filter (\<lambda>l. take 2 l = ''??'') (h_status h)\<rparr>))
          else (Inl ''exit status 1'', h)
      | _ \<Rightarrow> (Inl ''exit status 1'', h))"

definition host_exec :: "string list \<Rightarrow> host \<Rightarrow> (error + string) \<times> host" where
  "host_exec argv h =
     (case argv of
        [prog, x] \<Rightarrow>
          if prog = ''nixos-rebuild'' \<and> x = ''switch'' then
            (if h_rebuild_fails h then (Inl ''exit status 1'', h)
             else (Inr [], h\<lparr>h_generation := Suc (h_generation h)\<rparr>))
          else (Inl ''exit status 127'', h)
      | prog # c # dir # args \<Rightarrow>
          if prog = ''git'' \<and> c = ''-C'' then
            (if dir = h_repo h then git_exec args h else (Inl ''exit status 128'', h))
          else (Inl ''exit status 127'', h)
      | _ \<Rightarrow> (Inl ''exit status 127'', h))"

definition host_post :: "string \<Rightarrow> string \<Rightarrow> host \<Rightarrow> error option \<times> host" where
  "host_post url body h =
     (if h_webhook_up h then (None, h\<lparr>h_delivered := h_delivered h @ [(url, body)]\<rparr>)
      else (Some ''connection refused'', h))"

definition host_stat :: "string \<Rightarrow> host \<Rightarrow> error + FileInfo" where
  "host_stat path h =
     (case h_files h path of
        None \<Rightarrow> Inl (''stat '' @ path @ '': no such file or directory'')
      | Some Directory \<Rightarrow> Inr \<lparr>IsDir = True\<rparr>
      | Some (RegularFile data) \<Rightarrow> Inr \<lparr>IsDir = False\<rparr>)"

definition host_hostname :: "host \<Rightarrow> error + string" where
  "host_hostname h =
     (case h_hostname h of None \<Rightarrow> Inl ''hostname unavailable'' | Some n \<Rightarrow> Inr n)"

definition host_open :: "string \<Rightarrow> host \<Rightarrow> error + string" where
  "host_open path h =
     (case h_files h path of
        None \<Rightarrow> Inl (''open '' @ path @ '': no such file or directory'')
      | Some Directory \<Rightarrow> Inl (''read '' @ path @ '': is a directory'')
      | Some (RegularFile data) \<Rightarrow> Inr data)"

definition host_create :: "string \<Rightarrow> host \<Rightarrow> error option \<times> host" where
  "host_create path h =
     (if h_readonly h then (Some (''open '' @ path @ '': permission denied''), h)
      else (None, h\<lparr>h_files := (h_files h)(path \<mapsto> RegularFile [])\<rparr>))"

definition host_write :: "string \<Rightarrow> string \<Rightarrow> host \<Rightarrow> error option \<times> host" where
  "host_write path data h =
     (case h_files h path of
        Some (RegularFile old) \<Rightarrow>
          (None, h\<lparr>h_files := (h_files h)(path \<mapsto> RegularFile (old @ data))\<rparr>)
      | _ \<Rightarrow> (Some (''write '' @ path @ '': bad file descriptor''), h))"

text \<open>
  The codecs of the host write a configuration as the indented JSON object of
  \<^verbatim>\<open>saveConfig\<close> and a message as the object \<^verbatim>\<open>{"content": message}\<close>, with no
  escaping of the strings; the decoder reads back the configurations of a given
  list and rejects every other text.
\<close>

definition quoted :: "string \<Rightarrow> string" where
  "quoted s = [CHR 0x22] @ s @ [CHR 0x22]"

definition encode_config :: "Config \<Rightarrow> string" where
  "encode_config cfg =
     ''{'' @ [CHR 0x0A]
     @ ''  '' @ quoted ''repo_url'' @ '': '' @ quoted (RepoURL cfg) @ '','' @ [CHR 0x0A]
     @ ''  '' @ quoted ''branch'' @ '': '' @ quoted (Branch cfg) @ '','' @ [CHR 0x0A]
     @ ''  '' @ quoted ''repo_path'' @ '': '' @ quoted (RepoPath cfg) @ '','' @ [CHR 0x0A]
     @ ''  '' @ quoted ''discord_webhook'' @ '': '' @ quoted (DiscordWebhook cfg) @ '',''
     @ [CHR 0x0A]
     @ ''  '' @ quoted ''last_commit_hash'' @ '': '' @ quoted (LastCommitHash cfg)
     @ [CHR 0x0A] @ ''}'' @ [CHR 0x0A]"

definition decode_config :: "Config list \<Rightarrow> string \<Rightarrow> error + Config" where
  "decode_config known s =
     (case find (\<lambda>cfg. encode_config cfg = s) known of
        None \<Rightarrow> Inl ''invalid character''
      | Some cfg \<Rightarrow> Inr cfg)"

definition marshal_content :: "string \<Rightarrow> string" where
  "marshal_content message = ''{'' @ quoted ''content'' @ '':'' @ quoted message @ ''}''"

definition host_sys :: "Config list \<Rightarrow> host sys" where
  "host_sys known =
     \<lparr>exec_cmd = host_exec, http_post = host_post, os_stat = host_stat,
      os_hostname = host_hostname, os_open = host_open, os_create = host_create,
      file_write = host_write, json_decode = decode_config known,
      json_encode = encode_config, json_marshal = marshal_content\<rparr>"

text \<open>
  A commit identifier is a non-empty string of hexadecimal digits; \<open>tips_ok h b\<close>
  says that the tips of the remote's branches and the tip of \<open>b\<close> in the checkout
  are such identifiers, where they exist.  Branch \<open>b\<close> is checked out when
  \<^verbatim>\<open>HEAD\<close> resolves as the name \<open>b\<close> does: \<^verbatim>\<open>HEAD\<close> coincides with the tip of
  the local branch.  \<open>sole_match h b\<close> says that the only branches of the remote
  whose refs match the pattern \<open>b\<close> are those named \<open>b\<close>.
\<close>

definition is_hex :: "char \<Rightarrow> bool" where
  "is_hex c = (c \<in> set ''0123456789abcdef'')"

definition object_name :: "string \<Rightarrow> bool" where
  "object_name v = (v \<noteq> [] \<and> list_all is_hex v)"

definition tips_ok :: "host \<Rightarrow> string \<Rightarrow> bool" where
  "tips_ok h b =
     (list_all (\<lambda>r. object_name (snd r)) (h_origin h)
      \<and> (case rev_parse h b of None \<Rightarrow> True | Some v \<Rightarrow> object_name v))"

definition sole_match :: "host \<Rightarrow> string \<Rightarrow> bool" where
  "sole_match h b =
     list_all (\<lambda>r. fst r = b \<or> \<not> tail_match b (branch_ref (fst r))) (h_origin h)"

definition checked_out :: "host \<Rightarrow> string \<Rightarrow> bool" where
  "checked_out h b = (rev_parse h ''HEAD'' = rev_parse h b)"

text \<open>
  An example: the host \<^verbatim>\<open>nixbox\<close> with a clean checkout of \<^verbatim>\<open>main\<close> at
  \<^verbatim>\<open>/etc/nixos\<close>, one commit behind its remote.
\<close>

definition example_cfg :: Config where
  "example_cfg =
     \<lparr>RepoURL = ''https://example.org/nixos.git'', Branch = ''main'',
      RepoPath = ''/etc/nixos'', DiscordWebhook = ''https://example.org/hook'',
      LastCommitHash = []\<rparr>"

definition example_host :: host where
  "example_host =
     \<lparr>h_files =
        [''/etc/nixos/.git'' \<mapsto> Directory,
         ''config.json'' \<mapsto> RegularFile (encode_config example_cfg),
         ''/etc/nix-config-manager.json'' \<mapsto> RegularFile (encode_config example_cfg)],
      h_hostname = Some ''nixbox'',
      h_repo = ''/etc/nixos'',
      h_online = True,
      h_origin = [(''main'', ''bbb222'')],
      h_tracking = [''main'' \<mapsto> ''aaa111''],
      h_heads = [''main'' \<mapsto> ''aaa111''],
      h_HEAD = Attached ''main'',
      h_status = [],
      h_rebuild_fails = False,
      h_readonly = False,
      h_webhook_up = True,
      h_delivered = [],
      h_generation = 0\<rparr>"

definition example_sys :: "host sys" where
  "example_sys = host_sys [example_cfg]"

text \<open>The same host with an empty file system: no configuration file can be opened.\<close>

definition unconfigured_host :: host where
  "unconfigured_host = example_host\<lparr>h_files := Map.empty\<rparr>"

text \<open>
  The same host when its checkout is up to date with the branch \<^verbatim>\<open>main\<close> of the
  remote, and the remote also has a branch \<^verbatim>\<open>ci/main\<close> with another tip.
\<close>

definition forked_host :: host where
  "forked_host = example_host\<lparr>h_origin := [(''ci/main'', ''ccc333''), (''main'', ''aaa111'')]\<rparr>"

section \<open>Basic facts\<close>

lemma result_ret: "result (ret a) w = a"
  by (simp add: result_def ret_def)

lemma events_ret: "events (ret a) w = []"
  by (simp add: events_def ret_def)

lemma after_ret: "after (ret a) w = w"
  by (simp add: after_def ret_def)

lemma result_andThen: "result (andThen m k) w = result (k (result m w)) (after m w)"
  by (simp add: result_def after_def andThen_def split: prod.splits)

lemma events_andThen:
  "events (andThen m k) w = events m w @ events (k (result m w)) (after m w)"
  by (simp add: result_def after_def events_def andThen_def split: prod.splits)

lemma after_andThen: "after (andThen m k) w = after (k (result m w)) (after m w)"
  by (simp add: result_def after_def andThen_def split: prod.splits)

lemma events_emit: "events (emit e) w = [e]"
  by (simp add: events_def emit_def)

lemma after_emit: "after (emit e) w = w"
  by (simp add: after_def emit_def)

lemma result_lift: "result (lift f) w = f w"
  by (simp add: result_def lift_def)

lemma events_lift: "events (lift f) w = []"
  by (simp add: events_def lift_def)

lemma after_lift: "after (lift f) w = w"
  by (simp add: after_def lift_def)

lemma events_effect: "events (effect f) w = []"
  by (simp add: events_def effect_def split: prod.splits)

lemma events_cmd_Output: "events (cmd_Output sys argv) w = [Exec argv]"
  by (simp add: events_def cmd_Output_def split: prod.splits)

lemma events_cmd_Run: "events (cmd_Run sys argv) w = [Exec argv]"
  by (simp add: events_def cmd_Run_def split: prod.splits)

lemmas prog_simps =
  result_ret events_ret after_ret result_andThen events_andThen after_andThen
  events_emit after_emit result_lift events_lift after_lift events_effect
  events_cmd_Output events_cmd_Run

lemma result_effect: "result (effect f) w = fst (f w)"
  by (simp add: result_def effect_def split: prod.splits)

lemma stages_of_append: "stages_of (xs @ ys) = stages_of xs @ stages_of ys"
  by (induction xs rule: stages_of.induct) simp_all

lemma notifications_append: "notifications (xs @ ys) = notifications xs @ notifications ys"
  by (induction xs rule: notifications.induct) simp_all

lemma execs_append: "execs (xs @ ys) = execs xs @ execs ys"
  by (induction xs rule: execs.induct) simp_all

lemma posts_append: "posts (xs @ ys) = posts xs @ posts ys"
  by (induction xs rule: posts.induct) simp_all

lemma writes_append: "writes (xs @ ys) = writes xs @ writes ys"
  by (induction xs rule: writes.induct) simp_all

lemma logs_append: "logs (xs @ ys) = logs xs @ logs ys"
  by (induction xs rule: logs.induct) simp_all

lemmas proj_append =
  stages_of_append notifications_append execs_append posts_append writes_append logs_append

subsection \<open>The events of each function\<close>

lemma events_isGitRepo: "events (isGitRepo sys path) w = [Stage Validator]"
  by (simp add: isGitRepo_def prog_simps)

lemma after_isGitRepo: "after (isGitRepo sys path) w = w"
  by (simp add: isGitRepo_def prog_simps)

lemma after_get_hostname: "after (get_hostname sys) w = w"
  by (simp add: get_hostname_def prog_simps split: sum.splits)

lemma events_get_hostname:
  "stages_of (events (get_hostname sys) w) = []"
  "notifications (events (get_hostname sys) w) = []"
  "execs (events (get_hostname sys) w) = []"
  "posts (events (get_hostname sys) w) = []"
  "writes (events (get_hostname sys) w) = []"
  by (simp_all add: get_hostname_def prog_simps split: sum.splits)

lemma events_sendDiscord:
  "stages_of (events (sendDiscord sys url m) w) = []"
  "notifications (events (sendDiscord sys url m) w) = [(url, m)]"
  "execs (events (sendDiscord sys url m) w) = []"
  "posts (events (sendDiscord sys url m) w) = [(url, json_marshal sys m)]"
  "writes (events (sendDiscord sys url m) w) = []"
  by (simp_all add: sendDiscord_def prog_simps proj_append split: option.splits)

lemma events_isRepoClean:
  "events (isRepoClean sys path) w =
     [Stage Cleanliness, Exec [''git'', ''-C'', path, ''status'', ''--porcelain'']]"
  by (simp add: isRepoClean_def prog_simps split: sum.splits)

lemma events_getRemoteHash_M:
  "stages_of (events (getRemoteHash_M sys path branch) w) = [RemoteResolution]"
  "notifications (events (getRemoteHash_M sys path branch) w) = []"
  "posts (events (getRemoteHash_M sys path branch) w) = []"
  "writes (events (getRemoteHash_M sys path branch) w) = []"
  "logs (events (getRemoteHash_M sys path branch) w) = []"
  by (simp_all add: getRemoteHash_M_def prog_simps proj_append
      split: sum.splits option.splits list.splits)

lemma events_getRemoteHash_P:
  "stages_of (events (getRemoteHash_P sys path branch) w) = [RemoteResolution]"
  "notifications (events (getRemoteHash_P sys path branch) w) = []"
  "posts (events (getRemoteHash_P sys path branch) w) = []"
  "writes (events (getRemoteHash_P sys path branch) w) = []"
  "logs (events (getRemoteHash_P sys path branch) w) = []"
  by (simp_all add: getRemoteHash_P_def prog_simps proj_append
      split: sum.splits option.splits list.splits)

lemma events_getLocalHash_M:
  "stages_of (events (getLocalHash_M sys path branch) w) = [LocalResolution]"
  "notifications (events (getLocalHash_M sys path branch) w) = []"
  "posts (events (getLocalHash_M sys path branch) w) = []"
  "writes (events (getLocalHash_M sys path branch) w) = []"
  "logs (events (getLocalHash_M sys path branch) w) = []"
  by (simp_all add: getLocalHash_M_def prog_simps proj_append
      split: sum.splits option.splits list.splits)

lemma events_getLocalHash_P:
  "stages_of (events (getLocalHash_P sys path) w) = [LocalResolution]"
  "notifications (events (getLocalHash_P sys path) w) = []"
  "posts (events (getLocalHash_P sys path) w) = []"
  "writes (events (getLocalHash_P sys path) w) = []"
  "logs (events (getLocalHash_P sys path) w) = []"
  by (simp_all add: getLocalHash_P_def prog_simps proj_append
      split: sum.splits option.splits list.splits)

lemma events_run_cmds:
  "stages_of (events (run_cmds sys cmds) w) = []"
  "notifications (events (run_cmds sys cmds) w) = []"
  "posts (events (run_cmds sys cmds) w) = []"
  "writes (events (run_cmds sys cmds) w) = []"
  "logs (events (run_cmds sys cmds) w) = []"
  by (induction cmds arbitrary: w; simp add: prog_simps proj_append split: option.splits)+

lemma events_pullRepo:
  "stages_of (events (pullRepo sys path branch) w) = [Sync]"
  "notifications (events (pullRepo sys path branch) w) = []"
  "posts (events (pullRepo sys path branch) w) = []"
  "writes (events (pullRepo sys path branch) w) = []"
  "logs (events (pullRepo sys path branch) w) = []"
  by (simp_all add: pullRepo_def prog_simps proj_append events_run_cmds del: run_cmds.simps)

lemma events_rebuildNixOS:
  "events (rebuildNixOS sys) w = [Stage Rebuild, Exec [''nixos-rebuild'', ''switch'']]"
  by (simp add: rebuildNixOS_def prog_simps)

lemma events_saveConfig:
  "stages_of (events (saveConfig sys cfg) w) = [Persist]"
  "notifications (events (saveConfig sys cfg) w) = []"
  "posts (events (saveConfig sys cfg) w) = []"
  "execs (events (saveConfig sys cfg) w) = []"
  "logs (events (saveConfig sys cfg) w) = []"
  by (simp_all add: saveConfig_def prog_simps proj_append split: option.splits)

lemma writes_saveConfig:
  "writes (events (saveConfig sys cfg) w) =
     (case fst (os_create sys ''config.json'' w) of
        None \<Rightarrow> [(''config.json'', json_encode sys cfg)]
      | Some err \<Rightarrow> [])"
  by (simp add: saveConfig_def prog_simps proj_append result_effect split: option.splits)

lemma result_log_Fatalf: "result (log_Fatalf msg oc) w = (oc, 1)"
  by (simp add: log_Fatalf_def prog_simps)

lemma events_log_Fatalf: "events (log_Fatalf msg oc) w = [LogPrint msg]"
  by (simp add: log_Fatalf_def prog_simps)

lemmas stage_events =
  events_isGitRepo after_isGitRepo after_get_hostname events_get_hostname events_sendDiscord
  events_isRepoClean events_getRemoteHash_M events_getRemoteHash_P events_getLocalHash_M
  events_getLocalHash_P events_pullRepo events_rebuildNixOS events_saveConfig
  result_log_Fatalf events_log_Fatalf

lemmas run_defs =
  run_outcome_def exit_status_def trace_def host_name_def valid_result_def clean_result_def
  clean_world_def remote_result_def remote_world_def local_result_def local_world_def
  sync_result_def sync_world_def rebuild_result_def rebuild_world_def save_result_def
  change_detected_def getRemoteHash_def getLocalHash_def

lemma variant_simps:
  "main MainGo = main_M" "main Part000 = main_P"
  "loadConfig MainGo = loadConfig_M" "loadConfig Part000 = loadConfig_P"
  by (simp_all add: main_def loadConfig_def)

lemmas run_simps = prog_simps proj_append stage_events

subsection \<open>The paths through \<^verbatim>\<open>main\<close>\<close>

lemma path_config_error:
  assumes "loadConfig v sys w = Inl err"
  shows "result (main v sys) w = (ConfigurationError err, 1)
     \<and> trace v sys w = [LogPrint (''Error loading config: '' @ err)]"
  using assms
  by (cases v; simp add: run_defs variant_simps main_M_def main_P_def run_simps)

lemma path_not_repo:
  assumes "loadConfig v sys w = Inr cfg" and "\<not> valid_result sys cfg w"
  shows "result (main v sys) w = (NotAVCSRepo, 1)
     \<and> notifications (trace v sys w) =
         [(DiscordWebhook cfg, failure_message Validator cfg (host_name sys w) err)]
     \<and> stages_of (trace v sys w) = [Validator]
     \<and> execs (trace v sys w) = []"
  using assms
  by (cases v;
      simp add: run_defs variant_simps main_M_def main_P_def run_simps failure_message_def)

lemma path_status_error:
  assumes "loadConfig v sys w = Inr cfg" and "valid_result sys cfg w"
    and "clean_result sys cfg w = Inl err"
  shows "result (main v sys) w = (StatusQueryError err, 0)
     \<and> notifications (trace v sys w) =
         [(DiscordWebhook cfg, failure_message Cleanliness cfg (host_name sys w) err)]
     \<and> stages_of (trace v sys w) = [Validator, Cleanliness]"
  using assms
  by (cases v;
      simp add: run_defs variant_simps main_M_def main_P_def run_simps failure_message_def)

lemma path_dirty:
  assumes "loadConfig v sys w = Inr cfg" and "valid_result sys cfg w"
    and "clean_result sys cfg w = Inr False"
  shows "result (main v sys) w = (DirtyWorkingTree, 0)
     \<and> notifications (trace v sys w) =
         [(DiscordWebhook cfg,
           ''Repo at `'' @ RepoPath cfg @ ''` on `'' @ host_name sys w
           @ ''` has uncommitted changes. Skipping rebuild.'')]
     \<and> stages_of (trace v sys w) = [Validator, Cleanliness]
     \<and> execs (trace v sys w) = [[''git'', ''-C'', RepoPath cfg, ''status'', ''--porcelain'']]"
  using assms
  by (cases v; simp add: run_defs variant_simps main_M_def main_P_def run_simps)

lemma path_remote_error:
  assumes "loadConfig v sys w = Inr cfg" and "valid_result sys cfg w"
    and "clean_result sys cfg w = Inr True" and "remote_result v sys cfg w = Inl err"
  shows "result (main v sys) w = (ComparatorFailure RemoteResolution err, 0)
     \<and> notifications (trace v sys w) =
         [(DiscordWebhook cfg, failure_message RemoteResolution cfg (host_name sys w) err)]
     \<and> stages_of (trace v sys w) = [Validator, Cleanliness, RemoteResolution]"
  using assms
  by (cases v;
      simp add: run_defs variant_simps main_M_def main_P_def run_simps failure_message_def)

lemma path_local_error:
  assumes "loadConfig v sys w = Inr cfg" and "valid_result sys cfg w"
    and "clean_result sys cfg w = Inr True" and "remote_result v sys cfg w = Inr h"
    and "local_result v sys cfg w = Inl err"
  shows "result (main v sys) w = (ComparatorFailure LocalResolution err, 0)
     \<and> notifications (trace v sys w) =
         [(DiscordWebhook cfg, failure_message LocalResolution cfg (host_name sys w) err)]
     \<and> stages_of (trace v sys w) =
         [Validator, Cleanliness, RemoteResolution, LocalResolution]"
  using assms
  by (cases v;
      simp add: run_defs variant_simps main_M_def main_P_def run_simps failure_message_def)

lemma path_no_change:
  assumes "loadConfig v sys w = Inr cfg" and "valid_result sys cfg w"
    and "clean_result sys cfg w = Inr True" and "remote_result v sys cfg w = Inr h"
    and "local_result v sys cfg w = Inr h"
  shows "result (main v sys) w = (NoChange, 0)
     \<and> notifications (trace v sys w) = [] \<and> posts (trace v sys w) = []
     \<and> writes (trace v sys w) = []
     \<and> stages_of (trace v sys w) =
         [Validator, Cleanliness, RemoteResolution, LocalResolution]
     \<and> logs (trace v sys w) =
         logs (events (get_hostname sys) w)
         @ [''Remote Hash: '' @ h, ''Local Hash: '' @ h, ''No changes detected.'']"
  using assms
  by (cases v; simp add: run_defs variant_simps main_M_def main_P_def run_simps)

lemma path_sync_error:
  assumes "loadConfig v sys w = Inr cfg" and "change_detected v sys cfg w h l"
    and "sync_result v sys cfg w = Some err"
  shows "result (main v sys) w = (SyncFailure err, 0)
     \<and> notifications (trace v sys w) =
         [(DiscordWebhook cfg, failure_message Sync cfg (host_name sys w) err)]
     \<and> stages_of (trace v sys w) =
         [Validator, Cleanliness, RemoteResolution, LocalResolution, Sync]"
  using assms
  by (cases v;
      simp add: run_defs variant_simps main_M_def main_P_def run_simps failure_message_def)

lemma path_rebuild_error:
  assumes "loadConfig v sys w = Inr cfg" and "change_detected v sys cfg w h l"
    and "sync_result v sys cfg w = None" and "rebuild_result v sys cfg w = Some err"
  shows "result (main v sys) w = (RebuildFailure err, 0)
     \<and> notifications (trace v sys w) =
         [(DiscordWebhook cfg, failure_message Rebuild cfg (host_name sys w) err)]
     \<and> stages_of (trace v sys w) =
         [Validator, Cleanliness, RemoteResolution, LocalResolution, Sync, Rebuild]"
  using assms
  by (cases v;
      simp add: run_defs variant_simps main_M_def main_P_def run_simps failure_message_def)

lemma path_success_M:
  assumes "loadConfig MainGo sys w = Inr cfg" and "change_detected MainGo sys cfg w h l"
    and "sync_result MainGo sys cfg w = None" and "rebuild_result MainGo sys cfg w = None"
  shows "result (main MainGo sys) w = (Success, 0)
     \<and> notifications (trace MainGo sys w) =
         [(DiscordWebhook cfg, ''NixOS rebuild successful on `'' @ host_name sys w @ ''`.'')]
     \<and> stages_of (trace MainGo sys w) =
         [Validator, Cleanliness, RemoteResolution, LocalResolution, Sync, Rebuild]
     \<and> writes (trace MainGo sys w) = []"
  using assms
  by (simp add: run_defs variant_simps main_M_def run_simps)

lemma path_success_P:
  assumes "loadConfig Part000 sys w = Inr cfg" and "change_detected Part000 sys cfg w h l"
    and "sync_result Part000 sys cfg w = None" and "rebuild_result Part000 sys cfg w = None"
  shows "result (main Part000 sys) w = (Success, 0)
     \<and> notifications (trace Part000 sys w) =
         [(DiscordWebhook cfg, ''NixOS rebuild successful on `'' @ host_name sys w @ ''`.'')]
     \<and> stages_of (trace Part000 sys w) = pipeline
     \<and> writes (trace Part000 sys w) =
         writes (events (saveConfig sys (cfg\<lparr>LastCommitHash := h\<rparr>))
                   (rebuild_world Part000 sys cfg w))
     \<and> (case save_result sys cfg w h of
           None \<Rightarrow> True
         | Some err \<Rightarrow> ''Failed to save config: '' @ err \<in> set (logs (trace Part000 sys w)))"
  using assms
  by (simp add: run_defs variant_simps main_P_def run_simps pipeline_def
      split: option.splits)

lemma failure_message_inj:
  "failure_message s' cfg' h' err' = failure_message s cfg h err \<Longrightarrow> s' = s"
  by (cases s; cases s'; simp add: failure_message_def)

lemma stage_failure_path:
  assumes "loadConfig v sys w = Inr cfg" and "stage_failure v sys cfg w s = Some err"
  shows "notifications (trace v sys w) =
           [(DiscordWebhook cfg, failure_message s cfg (host_name sys w) err)]
     \<and> stages_of (trace v sys w) = upto_stage s
     \<and> (s \<noteq> Validator \<longrightarrow> snd (result (main v sys) w) = 0)"
proof (cases s)
  case Validator
  with assms(2) have "\<not> valid_result sys cfg w"
    by (simp add: stage_failure_def split: if_splits)
  from path_not_repo [OF assms(1) this, of err] show ?thesis
    by (simp add: Validator upto_stage_def pipeline_def)
next
  case Cleanliness
  with assms(2) have "valid_result sys cfg w" and "clean_result sys cfg w = Inl err"
    by (simp_all add: stage_failure_def split: if_splits sum.splits)
  from path_status_error [OF assms(1) this] show ?thesis
    by (simp add: Cleanliness upto_stage_def pipeline_def)
next
  case RemoteResolution
  with assms(2) have "valid_result sys cfg w" and "clean_result sys cfg w = Inr True"
    and "remote_result v sys cfg w = Inl err"
    by (simp_all add: stage_failure_def split: if_splits sum.splits)
  from path_remote_error [OF assms(1) this] show ?thesis
    by (simp add: RemoteResolution upto_stage_def pipeline_def)
next
  case LocalResolution
  with assms(2) obtain h where "valid_result sys cfg w" and "clean_result sys cfg w = Inr True"
    and "remote_result v sys cfg w = Inr h" and "local_result v sys cfg w = Inl err"
    by (auto simp add: stage_failure_def split: if_splits sum.splits)
  from path_local_error [OF assms(1) this] show ?thesis
    by (simp add: LocalResolution upto_stage_def pipeline_def)
next
  case Sync
  with assms(2) obtain h l where "change_detected v sys cfg w h l"
    and "sync_result v sys cfg w = Some err"
    by (auto simp add: stage_failure_def split: if_splits sum.splits)
  from path_sync_error [OF assms(1) this] show ?thesis
    by (simp add: Sync upto_stage_def pipeline_def)
next
  case Rebuild
  with assms(2) obtain h l where "change_detected v sys cfg w h l"
    and "sync_result v sys cfg w = None" and "rebuild_result v sys cfg w = Some err"
    by (auto simp add: stage_failure_def split: if_splits sum.splits)
  from path_rebuild_error [OF assms(1) this] show ?thesis
    by (simp add: Rebuild upto_stage_def pipeline_def)
next
  case Persist
  with assms(2) show ?thesis
    by (simp add: stage_failure_def)
qed

section \<open>The Repository Validator\<close>

text \<open>
  Claim C10.  \<^verbatim>\<open>isGitRepo\<close> returns true exactly when \<^verbatim>\<open>os.Stat\<close> of
  \<^verbatim>\<open>path/.git\<close> succeeds and reports a directory.  When the \<^verbatim>\<open>.git\<close> entry of the
  configured path is not a directory (a regular file, as in a worktree or a submodule
  checkout), the validator returns false and the run of either variant ends as
  "not a repository", with no stage after the validator.
\<close>

theorem validator_requires_directory:
  "(result (isGitRepo sys path) w
      = (\<exists>info. os_stat sys (path @ ''/.git'') w = Inr info \<and> IsDir info))
   \<and> (loadConfig v sys w = Inr cfg
        \<and> os_stat sys (RepoPath cfg @ ''/.git'') w = Inr file \<and> \<not> IsDir file
      \<longrightarrow> \<not> result (isGitRepo sys (RepoPath cfg)) w
          \<and> run_outcome v sys w = NotAVCSRepo
          \<and> stages_of (trace v sys w) = [Validator])"
proof (intro conjI impI)
  show "result (isGitRepo sys path) w
      = (\<exists>info. os_stat sys (path @ ''/.git'') w = Inr info \<and> IsDir info)"
    by (simp add: isGitRepo_def prog_simps split: sum.splits)
next
  assume a: "loadConfig v sys w = Inr cfg
        \<and> os_stat sys (RepoPath cfg @ ''/.git'') w = Inr file \<and> \<not> IsDir file"
  then have n: "\<not> valid_result sys cfg w"
    by (simp add: valid_result_def isGitRepo_def prog_simps)
  then show "\<not> result (isGitRepo sys (RepoPath cfg)) w"
    by (simp add: valid_result_def)
  from a have c: "loadConfig v sys w = Inr cfg" by simp
  from path_not_repo [OF c n, of "[]"] show "run_outcome v sys w = NotAVCSRepo"
    by (simp add: run_outcome_def)
  from path_not_repo [OF c n, of "[]"] show "stages_of (trace v sys w) = [Validator]"
    by simp
qed

theorem validator_requires_directory_witness:
  "run_outcome MainGo example_sys
     (example_host\<lparr>h_files := (h_files example_host)
        (''/etc/nixos/.git'' \<mapsto> RegularFile ''gitdir: /srv/nixos.git'')\<rparr>) = NotAVCSRepo"
proof -
  let ?w = "example_host\<lparr>h_files := (h_files example_host)
        (''/etc/nixos/.git'' \<mapsto> RegularFile ''gitdir: /srv/nixos.git'')\<rparr>"
  have c: "loadConfig MainGo example_sys ?w = Inr example_cfg"
    by code_simp
  have f: "os_stat example_sys (RepoPath example_cfg @ ''/.git'') ?w = Inr \<lparr>IsDir = False\<rparr>"
    by code_simp
  from validator_requires_directory [of example_sys "''/etc/nixos''" ?w MainGo example_cfg
      "\<lparr>IsDir = False\<rparr>"] c f
  show ?thesis by simp
qed

text \<open>
  Claim C4.  In every run in which the Repository Validator returns false, the
  Notifier is called exactly once, with the message "Repo path ... is not a Git
  repo"; no external command is run (no git call, no rebuild), and no stage other
  than the validator is entered.
\<close>

theorem not_a_repository_notifies_once:
  assumes "loadConfig v sys w = Inr cfg" and "\<not> valid_result sys cfg w"
  shows "run_outcome v sys w = NotAVCSRepo
     \<and> notifications (trace v sys w) =
         [(DiscordWebhook cfg,
           ''Repo path `'' @ RepoPath cfg @ ''` on `'' @ host_name sys w
           @ ''` is not a Git repo'')]
     \<and> execs (trace v sys w) = []
     \<and> stages_of (trace v sys w) = [Validator]"
  using path_not_repo [OF assms, of "[]"]
  by (simp add: run_outcome_def failure_message_def)

theorem not_a_repository_notifies_once_witness:
  "notifications (trace Part000 example_sys (example_host\<lparr>h_files :=
       [''config.json'' \<mapsto> RegularFile (encode_config example_cfg)]\<rparr>)) =
     [(''https://example.org/hook'', ''Repo path `/etc/nixos` on `nixbox` is not a Git repo'')]
   \<and> execs (trace Part000 example_sys (example_host\<lparr>h_files :=
       [''config.json'' \<mapsto> RegularFile (encode_config example_cfg)]\<rparr>)) = []"
proof -
  let ?w = "example_host\<lparr>h_files :=
       [''config.json'' \<mapsto> RegularFile (encode_config example_cfg)]\<rparr>"
  have c: "loadConfig Part000 example_sys ?w = Inr example_cfg"
    by code_simp
  have n: "\<not> valid_result example_sys example_cfg ?w"
    by code_simp
  have h: "host_name example_sys ?w = ''nixbox''"
    by code_simp
  from not_a_repository_notifies_once [OF c n] h show ?thesis
    by (simp add: example_cfg_def)
qed

section \<open>The Cleanliness Checker\<close>

text \<open>
  Claim C3.  In every run in which the cleanliness check succeeds and reports the
  tree dirty, the stages entered are the validator and the cleanliness check only
  (so the Sync Applier and the Rebuild Trigger are never invoked), the only command
  run is \<^verbatim>\<open>git status\<close>, and the Notifier is called exactly once, with the message
  that ends in "Skipping rebuild.".
\<close>

theorem dirty_tree_skips_sync_and_rebuild:
  assumes "loadConfig v sys w = Inr cfg" and "valid_result sys cfg w"
    and "clean_result sys cfg w = Inr False"
  shows "run_outcome v sys w = DirtyWorkingTree
     \<and> Sync \<notin> set (stages_of (trace v sys w))
     \<and> Rebuild \<notin> set (stages_of (trace v sys w))
     \<and> stages_of (trace v sys w) = [Validator, Cleanliness]
     \<and> execs (trace v sys w) = [[''git'', ''-C'', RepoPath cfg, ''status'', ''--porcelain'']]
     \<and> notifications (trace v sys w) =
         [(DiscordWebhook cfg,
           ''Repo at `'' @ RepoPath cfg @ ''` on `'' @ host_name sys w
           @ ''` has uncommitted changes. Skipping rebuild.'')]"
  using path_dirty [OF assms]
  by (simp add: run_outcome_def)

theorem dirty_tree_skips_sync_and_rebuild_witness:
  "run_outcome MainGo example_sys (example_host\<lparr>h_status := ['' M configuration.nix'']\<rparr>)
     = DirtyWorkingTree
   \<and> notifications
       (trace MainGo example_sys (example_host\<lparr>h_status := ['' M configuration.nix'']\<rparr>)) =
     [(''https://example.org/hook'',
       ''Repo at `/etc/nixos` on `nixbox` has uncommitted changes. Skipping rebuild.'')]"
proof -
  let ?w = "example_host\<lparr>h_status := ['' M configuration.nix'']\<rparr>"
  have c: "loadConfig MainGo example_sys ?w = Inr example_cfg"
    by code_simp
  have g: "valid_result example_sys example_cfg ?w"
    by code_simp
  have d: "clean_result example_sys example_cfg ?w = Inr False"
    by code_simp
  have h: "host_name example_sys ?w = ''nixbox''"
    by code_simp
  from dirty_tree_skips_sync_and_rebuild [OF c g d] h show ?thesis
    by (simp add: example_cfg_def)
qed

section \<open>The Change Gate\<close>

text \<open>
  Claim C1.  In every run in which both tips resolve and the remote tip equals the
  local tip, the outcome is NoChange, the Notifier is never called and nothing is
  posted (the run only prints "No changes detected." to the local log), and neither
  the Sync Applier nor the Rebuild Trigger nor the persistence step is entered;
  nothing is written to a file.
\<close>

theorem equal_tips_end_quietly:
  assumes "loadConfig v sys w = Inr cfg" and "valid_result sys cfg w"
    and "clean_result sys cfg w = Inr True" and "remote_result v sys cfg w = Inr h"
    and "local_result v sys cfg w = Inr h"
  shows "run_outcome v sys w = NoChange
     \<and> notifications (trace v sys w) = [] \<and> posts (trace v sys w) = []
     \<and> ''No changes detected.'' \<in> set (logs (trace v sys w))
     \<and> Sync \<notin> set (stages_of (trace v sys w))
     \<and> Rebuild \<notin> set (stages_of (trace v sys w))
     \<and> Persist \<notin> set (stages_of (trace v sys w))
     \<and> writes (trace v sys w) = []"
  using path_no_change [OF assms]
  by (simp add: run_outcome_def)

theorem equal_tips_end_quietly_witness:
  "run_outcome Part000 example_sys (example_host\<lparr>h_origin := [(''main'', ''aaa111'')]\<rparr>)
     = NoChange
   \<and> notifications
       (trace Part000 example_sys (example_host\<lparr>h_origin := [(''main'', ''aaa111'')]\<rparr>))
     = []"
proof -
  let ?w = "example_host\<lparr>h_origin := [(''main'', ''aaa111'')]\<rparr>"
  have c: "loadConfig Part000 example_sys ?w = Inr example_cfg"
    by code_simp
  have g: "valid_result example_sys example_cfg ?w"
    by code_simp
  have d: "clean_result example_sys example_cfg ?w = Inr True"
    by code_simp
  have r: "remote_result Part000 example_sys example_cfg ?w = Inr ''aaa111''"
    by code_simp
  have l: "local_result Part000 example_sys example_cfg ?w = Inr ''aaa111''"
    by code_simp
  from equal_tips_end_quietly [OF c g d r l] show ?thesis
    by simp
qed

section \<open>Failing stages\<close>

text \<open>
  Claim C2.  If the run reaches one of the stages validator, cleanliness check,
  remote resolution, local resolution, sync, rebuild and that stage fails, then the
  Notifier is called exactly once, with the message that \<^verbatim>\<open>main\<close> formats for that
  stage; that message is the failure message of no other stage, whatever the host,
  the configuration and the error; and the stages entered are the stages up to the
  failing one, so that no later stage runs.
\<close>

theorem failing_stage_notifies_once_and_stops:
  assumes "loadConfig v sys w = Inr cfg" and "stage_failure v sys cfg w s = Some err"
  shows "notifications (trace v sys w) =
           [(DiscordWebhook cfg, failure_message s cfg (host_name sys w) err)]
     \<and> (\<forall>s' cfg' h' err'.
           failure_message s' cfg' h' err' = failure_message s cfg (host_name sys w) err
           \<longrightarrow> s' = s)
     \<and> stages_of (trace v sys w) = upto_stage s"
  using stage_failure_path [OF assms] failure_message_inj
  by blast

theorem failing_stage_notifies_once_and_stops_witness:
  "notifications (trace Part000 example_sys (example_host\<lparr>h_online := False\<rparr>)) =
     [(''https://example.org/hook'',
       ''Failed to get remote hash on `nixbox`: git fetch failed: exit status 128'')]
   \<and> stages_of (trace Part000 example_sys (example_host\<lparr>h_online := False\<rparr>)) =
       [Validator, Cleanliness, RemoteResolution]"
proof -
  let ?w = "example_host\<lparr>h_online := False\<rparr>"
  have c: "loadConfig Part000 example_sys ?w = Inr example_cfg"
    by code_simp
  have f: "stage_failure Part000 example_sys example_cfg ?w RemoteResolution
             = Some ''git fetch failed: exit status 128''"
    by code_simp
  have h: "host_name example_sys ?w = ''nixbox''"
    by code_simp
  from failing_stage_notifies_once_and_stops [OF c f] h show ?thesis
    by (simp add: example_cfg_def failure_message_def upto_stage_def pipeline_def)
qed


section \<open>Persistence\<close>

lemma persist_only_on_success:
  assumes "Persist \<in> set (stages_of (trace v sys w)) \<or> writes (trace v sys w) \<noteq> []"
  shows "v = Part000 \<and>
     (\<exists>cfg h l. loadConfig v sys w = Inr cfg \<and> change_detected v sys cfg w h l
        \<and> sync_result v sys cfg w = None \<and> rebuild_result v sys cfg w = None)"
  using assms
  by (cases v;
      simp add: run_defs variant_simps main_M_def main_P_def run_simps
        split: sum.splits option.splits if_splits)

subsection \<open>The world after a run\<close>

lemma after_effect: "after (effect f) w = snd (f w)"
  by (simp add: after_def effect_def split: prod.splits)

lemma result_cmd_Output: "result (cmd_Output sys argv) w = fst (exec_cmd sys argv w)"
  by (simp add: result_def cmd_Output_def split: prod.splits)

lemma after_cmd_Output: "after (cmd_Output sys argv) w = snd (exec_cmd sys argv w)"
  by (simp add: after_def cmd_Output_def split: prod.splits)

lemma result_cmd_Run:
  "result (cmd_Run sys argv) w =
     (case fst (exec_cmd sys argv w) of Inl e \<Rightarrow> Some e | Inr out \<Rightarrow> None)"
  by (simp add: result_def cmd_Run_def split: prod.splits)

lemma after_cmd_Run: "after (cmd_Run sys argv) w = snd (exec_cmd sys argv w)"
  by (simp add: after_def cmd_Run_def split: prod.splits)

lemma after_saveConfig:
  "after (saveConfig sys cfg) w =
     (case os_create sys ''config.json'' w of
        (Some err, w') \<Rightarrow> w'
      | (None, w') \<Rightarrow> snd (file_write sys ''config.json'' (json_encode sys cfg) w'))"
  by (simp add: saveConfig_def prog_simps result_effect after_effect
      split: option.splits prod.splits)

lemma after_sendDiscord:
  "after (sendDiscord sys url m) w = snd (http_post sys url (json_marshal sys m) w)"
  by (simp add: sendDiscord_def prog_simps result_effect after_effect split: option.splits)

lemma path_success_P_world:
  assumes "loadConfig Part000 sys w = Inr cfg" and "change_detected Part000 sys cfg w h l"
    and "sync_result Part000 sys cfg w = None" and "rebuild_result Part000 sys cfg w = None"
  shows "after (main Part000 sys) w =
     after (sendDiscord sys (DiscordWebhook cfg)
              (''NixOS rebuild successful on `'' @ host_name sys w @ ''`.''))
       (after (saveConfig sys (cfg\<lparr>LastCommitHash := h\<rparr>)) (rebuild_world Part000 sys cfg w))"
  using assms
  by (simp add: run_defs variant_simps main_P_def run_simps split: option.splits)

text \<open>
  A part \<open>f\<close> of the world that no external command changes is the same after
  every stage that only runs commands.
\<close>

lemma frame_run_cmds:
  assumes "\<And>argv w. f (snd (exec_cmd sys argv w)) = f w"
  shows "f (after (run_cmds sys cmds) w) = f w"
  by (induction cmds arbitrary: w)
     (simp_all add: prog_simps after_cmd_Run assms split: option.splits)

lemma frame_stages:
  assumes "\<And>argv w. f (snd (exec_cmd sys argv w)) = f w"
  shows "f (after (isRepoClean sys p) w) = f w"
    and "f (after (getRemoteHash_M sys p b) w) = f w"
    and "f (after (getRemoteHash_P sys p b) w) = f w"
    and "f (after (getLocalHash_M sys p b) w) = f w"
    and "f (after (getLocalHash_P sys p) w) = f w"
    and "f (after (pullRepo sys p b) w) = f w"
    and "f (after (rebuildNixOS sys) w) = f w"
  by (simp_all add: isRepoClean_def getRemoteHash_M_def getRemoteHash_P_def
      getLocalHash_M_def getLocalHash_P_def pullRepo_def rebuildNixOS_def prog_simps
      after_cmd_Output after_cmd_Run assms frame_run_cmds [of f, OF assms]
      del: run_cmds.simps split: sum.splits option.splits list.splits)

lemma frame_rebuild_world:
  assumes "\<And>argv w. f (snd (exec_cmd sys argv w)) = f w"
  shows "f (rebuild_world v sys cfg w) = f w"
  by (cases v)
     (simp_all add: run_defs frame_stages [of f, OF assms])

lemma frame_main:
  assumes "\<And>argv w. f (snd (exec_cmd sys argv w)) = f w"
    and "\<And>url body w. f (snd (http_post sys url body w)) = f w"
    and "f (after (main v sys) w) \<noteq> f w"
  shows "v = Part000 \<and>
     (\<exists>cfg h l. loadConfig v sys w = Inr cfg \<and> change_detected v sys cfg w h l
        \<and> sync_result v sys cfg w = None \<and> rebuild_result v sys cfg w = None)"
  using assms(3)
  by (cases v;
      simp add: run_defs variant_simps main_M_def main_P_def prog_simps after_isGitRepo
        after_get_hostname log_Fatalf_def after_sendDiscord assms(2)
        frame_stages [of f, OF assms(1)]
        split: sum.splits option.splits if_splits)

subsection \<open>The host\<close>

lemma host_exec_files: "h_files (snd (host_exec argv h)) = h_files h"
  by (simp add: host_exec_def git_exec_def
      split: list.splits option.splits head_ref.splits)

lemma host_exec_readonly: "h_readonly (snd (host_exec argv h)) = h_readonly h"
  by (simp add: host_exec_def git_exec_def
      split: list.splits option.splits head_ref.splits)

lemma host_post_files: "h_files (snd (host_post url body h)) = h_files h"
  by (simp add: host_post_def)

lemma host_sys_fields:
  "exec_cmd (host_sys known) = host_exec" "http_post (host_sys known) = host_post"
  "os_create (host_sys known) = host_create" "file_write (host_sys known) = host_write"
  "json_encode (host_sys known) = encode_config"
  by (simp_all add: host_sys_def)

lemma host_saved_file:
  assumes "loadConfig Part000 (host_sys known) hst = Inr cfg"
    and "change_detected Part000 (host_sys known) cfg hst h l"
    and "sync_result Part000 (host_sys known) cfg hst = None"
    and "rebuild_result Part000 (host_sys known) cfg hst = None"
  shows "if h_readonly hst
         then h_files (after (main Part000 (host_sys known)) hst) = h_files hst
         else h_files (after (main Part000 (host_sys known)) hst) ''config.json''
                = Some (RegularFile (encode_config (cfg\<lparr>LastCommitHash := h\<rparr>)))"
proof -
  let ?sys = "host_sys known"
  let ?wR = "rebuild_world Part000 ?sys cfg hst"
  have fr: "h_files ?wR = h_files hst"
    by (rule frame_rebuild_world) (simp add: host_sys_fields host_exec_files)
  have ro: "h_readonly ?wR = h_readonly hst"
    by (rule frame_rebuild_world) (simp add: host_sys_fields host_exec_readonly)
  show ?thesis
    using fr ro
    by (simp add: path_success_P_world [OF assms] after_sendDiscord after_saveConfig
        host_sys_fields host_post_files host_create_def host_write_def)
qed

text \<open>
  Claim C5 (\<^verbatim>\<open>src/unnamed/part_000\<close>; \<^verbatim>\<open>src/main.go\<close> has no persistence step).
  Let the tips differ and sync and rebuild succeed, with remote tip \<open>h\<close> resolved
  for the comparison.
  \<^item> In every environment the persistence step is the last stage, entered after
    the rebuild; the world after the run is the world after the rebuild in which
    \<^verbatim>\<open>config.json\<close> was created and then written with the encoding of the
    configuration whose last commit hash is \<open>h\<close> (or in which the creation failed),
    followed by the post of the success message; no other data is written.
  \<^item> On the host model, after the run the file \<^verbatim>\<open>config.json\<close> holds exactly the
    encoding of the configuration whose last commit hash is \<open>h\<close>; when the file
    cannot be created, the file system is as before the run.
  \<^item> Persistence happens on this path only: in no other run of either variant is
    the persistence step entered or a write attempted, and on the host model no
    other run changes the file system.
\<close>

theorem persisted_revision_is_compared_remote_tip:
  "(loadConfig Part000 sys w = Inr cfg \<and> change_detected Part000 sys cfg w h l
      \<and> sync_result Part000 sys cfg w = None \<and> rebuild_result Part000 sys cfg w = None
    \<longrightarrow> stages_of (trace Part000 sys w) = pipeline
        \<and> set (writes (trace Part000 sys w))
            \<subseteq> {(''config.json'', json_encode sys (cfg\<lparr>LastCommitHash := h\<rparr>))}
        \<and> (fst (os_create sys ''config.json'' (rebuild_world Part000 sys cfg w)) = None
            \<longrightarrow> writes (trace Part000 sys w)
                = [(''config.json'', json_encode sys (cfg\<lparr>LastCommitHash := h\<rparr>))])
        \<and> after (main Part000 sys) w =
            snd (http_post sys (DiscordWebhook cfg)
                   (json_marshal sys
                      (''NixOS rebuild successful on `'' @ host_name sys w @ ''`.''))
                   (case os_create sys ''config.json'' (rebuild_world Part000 sys cfg w) of
                      (Some err, w') \<Rightarrow> w'
                    | (None, w') \<Rightarrow>
                        snd (file_write sys ''config.json''
                               (json_encode sys (cfg\<lparr>LastCommitHash := h\<rparr>)) w'))))
   \<and> (loadConfig Part000 (host_sys known) hst = Inr hcfg
        \<and> change_detected Part000 (host_sys known) hcfg hst hh hl
        \<and> sync_result Part000 (host_sys known) hcfg hst = None
        \<and> rebuild_result Part000 (host_sys known) hcfg hst = None
      \<longrightarrow> (if h_readonly hst
           then h_files (after (main Part000 (host_sys known)) hst) = h_files hst
           else h_files (after (main Part000 (host_sys known)) hst) ''config.json''
                  = Some (RegularFile (encode_config (hcfg\<lparr>LastCommitHash := hh\<rparr>)))))
   \<and> (Persist \<in> set (stages_of (trace v sys w)) \<or> writes (trace v sys w) \<noteq> []
      \<longrightarrow> v = Part000 \<and>
         (\<exists>cfg h l. loadConfig v sys w = Inr cfg \<and> change_detected v sys cfg w h l
            \<and> sync_result v sys cfg w = None \<and> rebuild_result v sys cfg w = None))
   \<and> (h_files (after (main v (host_sys known)) hst) \<noteq> h_files hst
      \<longrightarrow> v = Part000 \<and>
         (\<exists>cfg h l. loadConfig v (host_sys known) hst = Inr cfg
            \<and> change_detected v (host_sys known) cfg hst h l
            \<and> sync_result v (host_sys known) cfg hst = None
            \<and> rebuild_result v (host_sys known) cfg hst = None))"
proof (intro conjI impI)
  assume a: "loadConfig Part000 sys w = Inr cfg \<and> change_detected Part000 sys cfg w h l
      \<and> sync_result Part000 sys cfg w = None \<and> rebuild_result Part000 sys cfg w = None"
  then have p: "stages_of (trace Part000 sys w) = pipeline
     \<and> writes (trace Part000 sys w) =
         writes (events (saveConfig sys (cfg\<lparr>LastCommitHash := h\<rparr>))
                   (rebuild_world Part000 sys cfg w))"
    using path_success_P [of sys w cfg h l] by simp
  from p show "stages_of (trace Part000 sys w) = pipeline"
    by simp
  from p show "set (writes (trace Part000 sys w))
            \<subseteq> {(''config.json'', json_encode sys (cfg\<lparr>LastCommitHash := h\<rparr>))}"
    by (simp add: writes_saveConfig split: option.splits)
  from a show "after (main Part000 sys) w =
            snd (http_post sys (DiscordWebhook cfg)
                   (json_marshal sys
                      (''NixOS rebuild successful on `'' @ host_name sys w @ ''`.''))
                   (case os_create sys ''config.json'' (rebuild_world Part000 sys cfg w) of
                      (Some err, w') \<Rightarrow> w'
                    | (None, w') \<Rightarrow>
                        snd (file_write sys ''config.json''
                               (json_encode sys (cfg\<lparr>LastCommitHash := h\<rparr>)) w')))"
    using path_success_P_world [of sys w cfg h l]
    by (simp add: after_sendDiscord after_saveConfig)
  assume "fst (os_create sys ''config.json'' (rebuild_world Part000 sys cfg w)) = None"
  with p show "writes (trace Part000 sys w)
                = [(''config.json'', json_encode sys (cfg\<lparr>LastCommitHash := h\<rparr>))]"
    by (simp add: writes_saveConfig)
next
  assume "loadConfig Part000 (host_sys known) hst = Inr hcfg
        \<and> change_detected Part000 (host_sys known) hcfg hst hh hl
        \<and> sync_result Part000 (host_sys known) hcfg hst = None
        \<and> rebuild_result Part000 (host_sys known) hcfg hst = None"
  then show "if h_readonly hst
           then h_files (after (main Part000 (host_sys known)) hst) = h_files hst
           else h_files (after (main Part000 (host_sys known)) hst) ''config.json''
                  = Some (RegularFile (encode_config (hcfg\<lparr>LastCommitHash := hh\<rparr>)))"
    using host_saved_file [of known hst hcfg hh hl] by simp
next
  assume "Persist \<in> set (stages_of (trace v sys w)) \<or> writes (trace v sys w) \<noteq> []"
  then show "v = Part000"
    by (rule persist_only_on_success [THEN conjunct1])
next
  assume "Persist \<in> set (stages_of (trace v sys w)) \<or> writes (trace v sys w) \<noteq> []"
  then show "\<exists>cfg h l. loadConfig v sys w = Inr cfg \<and> change_detected v sys cfg w h l
            \<and> sync_result v sys cfg w = None \<and> rebuild_result v sys cfg w = None"
    by (rule persist_only_on_success [THEN conjunct2])
next
  assume n: "h_files (after (main v (host_sys known)) hst) \<noteq> h_files hst"
  have e: "\<And>argv w. h_files (snd (exec_cmd (host_sys known) argv w)) = h_files w"
    by (simp add: host_sys_fields host_exec_files)
  have q: "\<And>url body w. h_files (snd (http_post (host_sys known) url body w)) = h_files w"
    by (simp add: host_sys_fields host_post_files)
  show "v = Part000"
    by (rule frame_main [of h_files "host_sys known", OF e q n, THEN conjunct1])
  show "\<exists>cfg h l. loadConfig v (host_sys known) hst = Inr cfg
            \<and> change_detected v (host_sys known) cfg hst h l
            \<and> sync_result v (host_sys known) cfg hst = None
            \<and> rebuild_result v (host_sys known) cfg hst = None"
    by (rule frame_main [of h_files "host_sys known", OF e q n, THEN conjunct2])
qed

theorem persisted_revision_is_compared_remote_tip_witness:
  "h_files (after (main Part000 example_sys) example_host) ''config.json''
     = Some (RegularFile (encode_config (example_cfg\<lparr>LastCommitHash := ''bbb222''\<rparr>)))
   \<and> stages_of (trace Part000 example_sys example_host) = pipeline"
proof -
  have c: "loadConfig Part000 example_sys example_host = Inr example_cfg"
    by code_simp
  have d: "change_detected Part000 example_sys example_cfg example_host ''bbb222'' ''aaa111''"
    by code_simp
  have s: "sync_result Part000 example_sys example_cfg example_host = None"
    by code_simp
  have r: "rebuild_result Part000 example_sys example_cfg example_host = None"
    by code_simp
  have n: "\<not> h_readonly example_host"
    by code_simp
  have e: "host_sys [example_cfg] = example_sys"
    by (simp add: example_sys_def)
  note t = persisted_revision_is_compared_remote_tip
         [where sys = example_sys and w = example_host and cfg = example_cfg
            and h = "''bbb222''" and l = "''aaa111''" and known = "[example_cfg]"
            and hst = example_host and hcfg = example_cfg and hh = "''bbb222''"
            and hl = "''aaa111''" and v = Part000, unfolded e]
  from t [THEN conjunct1] c d s r
  have "stages_of (trace Part000 example_sys example_host) = pipeline"
    by simp
  moreover from t [THEN conjunct2, THEN conjunct1] c d s r n
  have "h_files (after (main Part000 example_sys) example_host) ''config.json''
     = Some (RegularFile (encode_config (example_cfg\<lparr>LastCommitHash := ''bbb222''\<rparr>)))"
    by simp
  ultimately show ?thesis by simp
qed



section \<open>The Notifier\<close>

lemma post_irrelevant_cmd:
  "cmd_Output (sys\<lparr>http_post := p\<rparr>) = cmd_Output sys"
  "cmd_Run (sys\<lparr>http_post := p\<rparr>) = cmd_Run sys"
  by (rule ext, rule ext, simp add: cmd_Output_def cmd_Run_def)+

lemma post_irrelevant_run_cmds: "run_cmds (sys\<lparr>http_post := p\<rparr>) cmds = run_cmds sys cmds"
  by (induction cmds) (simp_all add: post_irrelevant_cmd)

lemma post_irrelevant:
  "loadConfig_M (sys\<lparr>http_post := p\<rparr>) = loadConfig_M sys"
  "loadConfig_P (sys\<lparr>http_post := p\<rparr>) = loadConfig_P sys"
  "get_hostname (sys\<lparr>http_post := p\<rparr>) = get_hostname sys"
  "isGitRepo (sys\<lparr>http_post := p\<rparr>) = isGitRepo sys"
  "isRepoClean (sys\<lparr>http_post := p\<rparr>) = isRepoClean sys"
  "getRemoteHash_M (sys\<lparr>http_post := p\<rparr>) = getRemoteHash_M sys"
  "getRemoteHash_P (sys\<lparr>http_post := p\<rparr>) = getRemoteHash_P sys"
  "getLocalHash_M (sys\<lparr>http_post := p\<rparr>) = getLocalHash_M sys"
  "getLocalHash_P (sys\<lparr>http_post := p\<rparr>) = getLocalHash_P sys"
  "pullRepo (sys\<lparr>http_post := p\<rparr>) = pullRepo sys"
  "rebuildNixOS (sys\<lparr>http_post := p\<rparr>) = rebuildNixOS sys"
  "saveConfig (sys\<lparr>http_post := p\<rparr>) = saveConfig sys"
  by (rule ext | simp add: loadConfig_M_def loadConfig_P_def get_hostname_def isGitRepo_def
        isRepoClean_def getRemoteHash_M_def getRemoteHash_P_def getLocalHash_M_def
        getLocalHash_P_def pullRepo_def rebuildNixOS_def saveConfig_def post_irrelevant_cmd
        post_irrelevant_run_cmds del: run_cmds.simps
        cong: sum.case_cong option.case_cong list.case_cong)+

text \<open>
  Claim C9.  \<^verbatim>\<open>sendDiscord\<close> returns nothing: whatever \<^verbatim>\<open>http.Post\<close> does, its
  events are the call, the post and, when the post fails, one line of the log.  And
  a run is the same whatever the delivery does: replacing \<^verbatim>\<open>http.Post\<close> by any
  other behaviour (one that fails where it succeeded, or the reverse) changes
  neither the outcome of the run, nor its exit status, nor the stages entered, the
  notifications attempted, the commands run or the data written.
\<close>

theorem delivery_does_not_change_the_run:
  "events (sendDiscord sys url message) w =
     [Notify url message, HttpPost url (json_marshal sys message)]
     @ (case fst (http_post sys url (json_marshal sys message) w) of
          None \<Rightarrow> []
        | Some err \<Rightarrow> [LogPrint (''failed to send Discord webhook: '' @ err)])
   \<and> run_outcome v (sys\<lparr>http_post := deliver\<rparr>) w = run_outcome v sys w
   \<and> exit_status v (sys\<lparr>http_post := deliver\<rparr>) w = exit_status v sys w
   \<and> stages_of (trace v (sys\<lparr>http_post := deliver\<rparr>) w) = stages_of (trace v sys w)
   \<and> notifications (trace v (sys\<lparr>http_post := deliver\<rparr>) w) = notifications (trace v sys w)
   \<and> execs (trace v (sys\<lparr>http_post := deliver\<rparr>) w) = execs (trace v sys w)
   \<and> writes (trace v (sys\<lparr>http_post := deliver\<rparr>) w) = writes (trace v sys w)"
proof (intro conjI)
  show "events (sendDiscord sys url message) w =
     [Notify url message, HttpPost url (json_marshal sys message)]
     @ (case fst (http_post sys url (json_marshal sys message) w) of
          None \<Rightarrow> []
        | Some err \<Rightarrow> [LogPrint (''failed to send Discord webhook: '' @ err)])"
    by (simp add: sendDiscord_def prog_simps result_effect split: option.splits)
  show "run_outcome v (sys\<lparr>http_post := deliver\<rparr>) w = run_outcome v sys w"
    by (cases v; simp add: run_defs variant_simps main_M_def main_P_def post_irrelevant
          run_simps split: sum.splits option.splits if_splits)
  show "exit_status v (sys\<lparr>http_post := deliver\<rparr>) w = exit_status v sys w"
    by (cases v; simp add: run_defs variant_simps main_M_def main_P_def post_irrelevant
          run_simps split: sum.splits option.splits if_splits)
  show "stages_of (trace v (sys\<lparr>http_post := deliver\<rparr>) w) = stages_of (trace v sys w)"
    by (cases v; simp add: run_defs variant_simps main_M_def main_P_def post_irrelevant
          run_simps split: sum.splits option.splits if_splits)
  show "notifications (trace v (sys\<lparr>http_post := deliver\<rparr>) w)
          = notifications (trace v sys w)"
    by (cases v; simp add: run_defs variant_simps main_M_def main_P_def post_irrelevant
          run_simps split: sum.splits option.splits if_splits)
  show "execs (trace v (sys\<lparr>http_post := deliver\<rparr>) w) = execs (trace v sys w)"
    by (cases v; simp add: run_defs variant_simps main_M_def main_P_def post_irrelevant
          run_simps split: sum.splits option.splits if_splits)
  show "writes (trace v (sys\<lparr>http_post := deliver\<rparr>) w) = writes (trace v sys w)"
    by (cases v; simp add: run_defs variant_simps main_M_def main_P_def post_irrelevant
          run_simps split: sum.splits option.splits if_splits)
qed

theorem delivery_does_not_change_the_run_witness:
  "run_outcome Part000
     (example_sys\<lparr>http_post := \<lambda>url body h. (Some ''connection refused'', h)\<rparr>)
     example_host = Success
   \<and> notifications (trace Part000
     (example_sys\<lparr>http_post := \<lambda>url body h. (Some ''connection refused'', h)\<rparr>)
     example_host) =
       [(''https://example.org/hook'', ''NixOS rebuild successful on `nixbox`.'')]"
proof -
  have o: "run_outcome Part000 example_sys example_host = Success"
    by code_simp
  have n: "notifications (trace Part000 example_sys example_host) =
       [(''https://example.org/hook'', ''NixOS rebuild successful on `nixbox`.'')]"
    by code_simp
  from delivery_does_not_change_the_run
         [of example_sys "[]" "[]" example_host Part000
            "\<lambda>url body h. (Some ''connection refused'', h)"] o n
  show ?thesis by simp
qed

section \<open>The exit status of the process\<close>

lemma exit_status_eq:
  "exit_status v sys w =
     (case loadConfig v sys w of
        Inl e \<Rightarrow> 1
      | Inr cfg \<Rightarrow> if valid_result sys cfg w then 0 else 1)"
  by (cases v; simp add: run_defs variant_simps main_M_def main_P_def run_simps
       split: sum.splits option.splits if_splits)

text \<open>
  Claim C7 does not hold as stated: \<^verbatim>\<open>main\<close> also calls \<^verbatim>\<open>log.Fatalf\<close> when the
  configuration cannot be loaded.  On a host with no configuration file the process
  of either variant ends with status 1 although the validator never ran, and this
  failure path sends no notification.
\<close>

theorem fatal_exit_without_validation:
  "exit_status MainGo example_sys unconfigured_host = 1
   \<and> stages_of (trace MainGo example_sys unconfigured_host) = []
   \<and> notifications (trace MainGo example_sys unconfigured_host) = []
   \<and> exit_status Part000 example_sys unconfigured_host = 1
   \<and> stages_of (trace Part000 example_sys unconfigured_host) = []
   \<and> notifications (trace Part000 example_sys unconfigured_host) = []"
  by code_simp

text \<open>
  Claim C7, amended.  The process ends with status 1 exactly when the configuration
  cannot be loaded or the Repository Validator returns false, and with status 0
  otherwise.  A failure to load the configuration sends no notification.  Every
  failing stage sends exactly one notification, and after the failure of a stage
  other than the validator the process ends with status 0.
\<close>

theorem fatal_exit_iff_no_config_or_not_a_repository:
  "exit_status v sys w =
     (case loadConfig v sys w of
        Inl e \<Rightarrow> 1
      | Inr cfg \<Rightarrow> if valid_result sys cfg w then 0 else 1)
   \<and> (loadConfig v sys w = Inl e \<longrightarrow> notifications (trace v sys w) = [])
   \<and> (loadConfig v sys w = Inr cfg \<and> stage_failure v sys cfg w s = Some err
      \<longrightarrow> length (notifications (trace v sys w)) = 1
          \<and> (s \<noteq> Validator \<longrightarrow> exit_status v sys w = 0))"
proof (intro conjI impI)
  show "exit_status v sys w =
     (case loadConfig v sys w of
        Inl e \<Rightarrow> 1
      | Inr cfg \<Rightarrow> if valid_result sys cfg w then 0 else 1)"
    by (rule exit_status_eq)
next
  assume "loadConfig v sys w = Inl e"
  from path_config_error [OF this] show "notifications (trace v sys w) = []"
    by simp
next
  assume a: "loadConfig v sys w = Inr cfg \<and> stage_failure v sys cfg w s = Some err"
  then show "length (notifications (trace v sys w)) = 1"
    using stage_failure_path [of v sys w cfg s err] by simp
  assume "s \<noteq> Validator"
  with a show "exit_status v sys w = 0"
    using stage_failure_path [of v sys w cfg s err] by (simp add: exit_status_def)
qed

theorem fatal_exit_iff_no_config_or_not_a_repository_witness:
  "exit_status MainGo example_sys (example_host\<lparr>h_rebuild_fails := True\<rparr>) = 0
   \<and> length (notifications
       (trace MainGo example_sys (example_host\<lparr>h_rebuild_fails := True\<rparr>))) = 1"
proof -
  let ?w = "example_host\<lparr>h_rebuild_fails := True\<rparr>"
  have c: "loadConfig MainGo example_sys ?w = Inr example_cfg"
    by code_simp
  have f: "stage_failure MainGo example_sys example_cfg ?w Rebuild = Some ''exit status 1''"
    by code_simp
  from fatal_exit_iff_no_config_or_not_a_repository
         [of MainGo example_sys ?w "[]" example_cfg Rebuild "''exit status 1''"] c f
  show ?thesis by simp
qed


section \<open>The two revision resolutions on one checkout\<close>

lemma hex_not_space: "is_hex c \<Longrightarrow> \<not> isSpace c"
  by (auto simp add: is_hex_def isSpace_def)

lemma object_name_no_space: "object_name v \<Longrightarrow> v \<noteq> [] \<and> list_all (\<lambda>c. \<not> isSpace c) v"
  by (auto simp add: object_name_def list_all_iff hex_not_space)

lemma dropWhile_no_space:
  "list_all (\<lambda>c. \<not> isSpace c) v \<Longrightarrow> v \<noteq> [] \<Longrightarrow> dropWhile isSpace (v @ xs) = v @ xs"
  by (cases v) simp_all

lemma TrimSpace_line:
  assumes "list_all (\<lambda>c. \<not> isSpace c) v" and "v \<noteq> []"
  shows "TrimSpace (v @ [CHR 0x0A]) = v"
proof -
  have "list_all (\<lambda>c. \<not> isSpace c) (rev v)" and "rev v \<noteq> []"
    using assms by (simp_all add: list_all_iff)
  then have "dropWhile isSpace (rev v @ []) = rev v @ []"
    by (rule dropWhile_no_space)
  then show ?thesis
    using assms by (simp add: TrimSpace_def dropWhile_no_space isSpace_def)
qed

lemma Fields_from_token:
  "list_all (\<lambda>c. \<not> isSpace c) v \<Longrightarrow> isSpace c \<Longrightarrow> cur @ v \<noteq> [] \<Longrightarrow>
     Fields_from cur (v @ c # rest) = (cur @ v) # Fields_from [] rest"
  by (induction v arbitrary: cur) auto

lemma Fields_line:
  assumes "object_name v"
  shows "Fields (v @ CHR 0x09 # rest) = v # Fields_from [] rest"
  using Fields_from_token [of v "CHR 0x09" "[]" rest] object_name_no_space [OF assms]
  by (simp add: Fields_def isSpace_def)

lemma host_status:
  "snd (host_exec [''git'', ''-C'', p, ''status'', ''--porcelain''] h) = h"
  by (simp add: host_exec_def git_exec_def)

lemma host_ls_remote:
  "host_exec [''git'', ''-C'', p, ''ls-remote'', ''origin'', b] h =
     (if p = h_repo h \<and> h_online h then (Inr (ls_remote h b), h)
      else (Inl ''exit status 128'', h))"
  by (simp add: host_exec_def git_exec_def)

lemma host_fetch:
  "host_exec [''git'', ''-C'', p, ''fetch'', ''origin'', b] h =
     (if p = h_repo h \<and> h_online h then
        (case map_of (h_origin h) b of
           None \<Rightarrow> (Inl ''exit status 128'', h)
         | Some v \<Rightarrow> (Inr [], h\<lparr>h_tracking := (h_tracking h)(b \<mapsto> v)\<rparr>))
      else (Inl ''exit status 128'', h))"
  by (simp add: host_exec_def git_exec_def split: option.splits)

lemma host_rev_parse:
  "host_exec [''git'', ''-C'', p, ''rev-parse'', name] h =
     (if p = h_repo h then
        (case rev_parse h name of
           None \<Rightarrow> (Inl ''exit status 128'', h)
         | Some v \<Rightarrow> (Inr (v @ [CHR 0x0A]), h))
      else (Inl ''exit status 128'', h))"
  by (simp add: host_exec_def git_exec_def split: option.splits)

lemma drop_origin: "take 7 b = ''origin/'' \<Longrightarrow> drop 7 b \<noteq> b"
proof
  assume t: "take 7 b = ''origin/''" and d: "drop 7 b = b"
  from d have "length (drop 7 b) = length b" by simp
  then have "length b - 7 = length b" by simp
  then have "length b = 0" by arith
  then have "b = []" by simp
  with t show False by simp
qed

lemma rev_parse_branch_after_fetch:
  "rev_parse (h\<lparr>h_tracking := (h_tracking h)(b \<mapsto> r)\<rparr>) b = rev_parse h b"
  by (simp add: rev_parse_def drop_origin split: head_ref.splits)

lemma rev_parse_HEAD_after_fetch:
  "rev_parse (h\<lparr>h_tracking := t\<rparr>) ''HEAD'' = rev_parse h ''HEAD''"
  by (simp add: rev_parse_def split: head_ref.splits)

lemma rev_parse_tracking_after_fetch:
  "rev_parse (h\<lparr>h_tracking := (h_tracking h)(b \<mapsto> r)\<rparr>) (''origin/'' @ b) = Some r"
  by (simp add: rev_parse_def)

text \<open>
  Claim C6 does not hold: \<^verbatim>\<open>getRemoteHash\<close> of \<^verbatim>\<open>src/main.go\<close> takes the first field
  of what \<^verbatim>\<open>git ls-remote origin branch\<close> prints, and that command lists every ref
  whose tail matches the branch name.  On a host where \<^verbatim>\<open>main\<close> is checked out
  and equal to the branch \<^verbatim>\<open>main\<close> of the remote, and the remote also has a branch
  \<^verbatim>\<open>ci/main\<close>, listed first, the resolution of \<^verbatim>\<open>src/main.go\<close> gives the tip of
  \<^verbatim>\<open>ci/main\<close> as the remote identifier and that of \<^verbatim>\<open>src/unnamed/part_000\<close> the tip
  of \<^verbatim>\<open>main\<close>.  The pairs differ and the Change Gate decides differently:
  \<^verbatim>\<open>src/main.go\<close> syncs and rebuilds, \<^verbatim>\<open>src/unnamed/part_000\<close> ends with NoChange.
  The remote does not change during the runs.
\<close>

theorem main_go_resolves_tip_of_another_branch:
  "checked_out forked_host ''main'' \<and> tips_ok forked_host ''main''
   \<and> ls_remote forked_host ''main''
       = ''ccc333'' @ [CHR 0x09] @ ''refs/heads/ci/main'' @ [CHR 0x0A]
         @ ''aaa111'' @ [CHR 0x09] @ ''refs/heads/main'' @ [CHR 0x0A]
   \<and> result (revisions_M example_sys ''/etc/nixos'' ''main'') forked_host
       = Inr (''ccc333'', ''aaa111'')
   \<and> result (revisions_P example_sys ''/etc/nixos'' ''main'') forked_host
       = Inr (''aaa111'', ''aaa111'')
   \<and> h_origin (after (revisions_M example_sys ''/etc/nixos'' ''main'') forked_host)
       = h_origin forked_host
   \<and> h_origin (after (revisions_P example_sys ''/etc/nixos'' ''main'') forked_host)
       = h_origin forked_host
   \<and> run_outcome MainGo example_sys forked_host = Success
   \<and> run_outcome Part000 example_sys forked_host = NoChange"
  by code_simp

subsection \<open>Agreement when the pattern matches the tracked branch only\<close>

lemma ends_with_append: "ends_with (pre @ t) t"
  by (simp add: ends_with_def)

lemma tail_match_self: "tail_match b (branch_ref b)"
  using ends_with_append [of "''refs/heads''" "''/'' @ b"]
  by (simp add: tail_match_def branch_ref_def)

lemma ls_remote_sole:
  assumes "list_all (\<lambda>r. fst r = b \<or> \<not> tail_match b (branch_ref (fst r))) rs"
  shows "(map_of rs b = None \<longrightarrow>
            concat (map ref_line
              (filter (\<lambda>r. tail_match b (branch_ref (fst r))) rs)) = [])
       \<and> (\<forall>v. map_of rs b = Some v \<longrightarrow>
            (\<exists>rest. concat (map ref_line
              (filter (\<lambda>r. tail_match b (branch_ref (fst r))) rs))
                = v @ CHR 0x09 # rest))"
  using assms
  by (induction rs) (auto simp add: ref_line_def tail_match_self)

text \<open>
  Let the tracked branch be checked out, and let the refs of the remote that match
  the branch name be those of the branch itself.  Then the two resolutions fail at
  the same stage or yield the same pair, and on a host where both programs load
  the same configuration one run ends with NoChange exactly when the other does.
\<close>

lemma host_revisions:
  assumes "checked_out h b" and "tips_ok h b" and "sole_match h b"
  shows "map_sum fst id (result (revisions_M (host_sys known) p b) h)
       = map_sum fst id (result (revisions_P (host_sys known) p b) h)"
proof -
  let ?sys = "host_sys known"
  have ex: "exec_cmd ?sys = host_exec"
    by (simp add: host_sys_def)
  from assms(1) have hd: "rev_parse h ''HEAD'' = rev_parse h b"
    by (simp add: checked_out_def)
  note tl = TrimSpace_line [OF object_name_no_space [THEN conjunct2]
      object_name_no_space [THEN conjunct1]]
  note ls = ls_remote_sole [OF assms(3) [unfolded sole_match_def], folded ls_remote_def]
  show ?thesis
  proof (cases "p = h_repo h \<and> h_online h")
    case False
    then have "host_exec [''git'', ''-C'', p, ''ls-remote'', ''origin'', b] h
                 = (Inl ''exit status 128'', h)"
      and "host_exec [''git'', ''-C'', p, ''fetch'', ''origin'', b] h
                 = (Inl ''exit status 128'', h)"
      by (auto simp add: host_ls_remote host_fetch)
    then show ?thesis
      by (simp add: revisions_M_def revisions_P_def getRemoteHash_M_def getRemoteHash_P_def
          prog_simps result_cmd_Output result_cmd_Run ex)
  next
    case True
    show ?thesis
    proof (cases "map_of (h_origin h) b")
      case None
      with ls have "ls_remote h b = []" by simp
      with True None show ?thesis
        by (simp add: revisions_M_def revisions_P_def getRemoteHash_M_def getRemoteHash_P_def
            prog_simps result_cmd_Output result_cmd_Run ex host_ls_remote host_fetch
            Fields_def)
    next
      case (Some r)
      then have "(b, r) \<in> set (h_origin h)"
        by (rule map_of_SomeD)
      with assms(2) have ro: "object_name r"
        by (auto simp add: tips_ok_def list_all_iff)
      from ls Some obtain rest where out: "ls_remote h b = r @ CHR 0x09 # rest"
        by auto
      show ?thesis
      proof (cases "rev_parse h b")
        case None
        have m: "result (revisions_M ?sys p b) h = Inl (LocalResolution,
                   ''failed to get local hash: exit status 128'')"
          using True Some None out
          by (simp add: revisions_M_def getRemoteHash_M_def getLocalHash_M_def prog_simps
              result_cmd_Output result_cmd_Run after_cmd_Output after_cmd_Run ex
              host_ls_remote host_fetch host_rev_parse Fields_line [OF ro]
              rev_parse_branch_after_fetch)
        have q: "result (revisions_P ?sys p b) h = Inl (LocalResolution, ''exit status 128'')"
          using True Some None hd rev_parse_tracking_after_fetch [of h b r]
          by (simp add: revisions_P_def getRemoteHash_P_def getLocalHash_P_def prog_simps
              result_cmd_Output result_cmd_Run after_cmd_Output after_cmd_Run ex
              host_fetch host_rev_parse rev_parse_HEAD_after_fetch tl [OF ro ro])
        from m q show ?thesis by simp
      next
        case (Some l)
        with assms(2) have lo: "object_name l"
          by (simp add: tips_ok_def)
        have m: "result (revisions_M ?sys p b) h = Inr (r, l)"
          using True \<open>map_of (h_origin h) b = Some r\<close> Some out
          by (simp add: revisions_M_def getRemoteHash_M_def getLocalHash_M_def prog_simps
              result_cmd_Output result_cmd_Run after_cmd_Output after_cmd_Run ex
              host_ls_remote host_fetch host_rev_parse Fields_line [OF ro]
              rev_parse_branch_after_fetch tl [OF lo lo])
        have q: "result (revisions_P ?sys p b) h = Inr (r, l)"
          using True \<open>map_of (h_origin h) b = Some r\<close> Some hd
            rev_parse_tracking_after_fetch [of h b r]
          by (simp add: revisions_P_def getRemoteHash_P_def getLocalHash_P_def prog_simps
              result_cmd_Output result_cmd_Run after_cmd_Output after_cmd_Run ex
              host_fetch host_rev_parse rev_parse_HEAD_after_fetch
              tl [OF ro ro] tl [OF lo lo])
        from m q show ?thesis by simp
      qed
    qed
  qed
qed

lemma no_change_iff:
  assumes "loadConfig v sys w = Inr cfg"
  shows "(run_outcome v sys w = NoChange) =
     (valid_result sys cfg w \<and> clean_result sys cfg w = Inr True
      \<and> (\<exists>x. remote_result v sys cfg w = Inr x \<and> local_result v sys cfg w = Inr x))"
  using assms
  by (cases v;
      auto simp add: run_defs variant_simps main_M_def main_P_def run_simps
        split: sum.splits option.splits if_splits)

lemma revisions_M_result:
  "(\<exists>x. result (getRemoteHash_M sys p b) w = Inr x
        \<and> result (getLocalHash_M sys p b) (after (getRemoteHash_M sys p b) w) = Inr x)
   = (\<exists>x. map_sum fst id (result (revisions_M sys p b) w) = Inr (x, x))"
  by (auto simp add: revisions_M_def prog_simps split: sum.splits)

lemma revisions_P_result:
  "(\<exists>x. result (getRemoteHash_P sys p b) w = Inr x
        \<and> result (getLocalHash_P sys p) (after (getRemoteHash_P sys p b) w) = Inr x)
   = (\<exists>x. map_sum fst id (result (revisions_P sys p b) w) = Inr (x, x))"
  by (auto simp add: revisions_P_def prog_simps split: sum.splits)

lemma host_clean_world: "clean_world (host_sys known) cfg h = h"
  by (simp add: clean_world_def isRepoClean_def prog_simps after_cmd_Output host_sys_def
      host_status split: sum.splits)

lemma host_same_gate_decision:
  assumes "checked_out h (Branch cfg)" and "tips_ok h (Branch cfg)"
    and "sole_match h (Branch cfg)"
    and "loadConfig MainGo (host_sys known) h = Inr cfg"
    and "loadConfig Part000 (host_sys known) h = Inr cfg"
  shows "(run_outcome MainGo (host_sys known) h = NoChange)
       = (run_outcome Part000 (host_sys known) h = NoChange)"
proof -
  let ?sys = "host_sys known"
  have e: "map_sum fst id (result (revisions_M ?sys (RepoPath cfg) (Branch cfg)) h)
       = map_sum fst id (result (revisions_P ?sys (RepoPath cfg) (Branch cfg)) h)"
    using assms(1-3) by (rule host_revisions)
  have "(\<exists>x. remote_result MainGo ?sys cfg h = Inr x \<and> local_result MainGo ?sys cfg h = Inr x)
      = (\<exists>x. remote_result Part000 ?sys cfg h = Inr x
              \<and> local_result Part000 ?sys cfg h = Inr x)"
    unfolding remote_result_def local_result_def remote_world_def host_clean_world
      getRemoteHash_def getLocalHash_def
    using e by (simp add: revisions_M_result revisions_P_result)
  with assms(4,5) show ?thesis
    by (simp add: no_change_iff [of MainGo ?sys h cfg] no_change_iff [of Part000 ?sys h cfg])
qed

end
